theory Spec2Isabelle
  imports Complex_Main "HOL-Library.Product_Lexorder"
begin

section \<open>Tables of BetweenCountry.py\<close>

text \<open>
  The program works on pandas tables. A table has a row index (one integer label per
  row, possibly named) and named columns of equal length. A cell is a number or is
  missing (NaN), written \<open>None\<close>. Numbers are modelled as reals: the branches and
  formulas of the code are kept, the rounding of binary floating point is not.

  Row labels matter: \<open>df.loc[i, c]\<close> looks a row up by its label, while
  \<open>df[c] = [...]\<close> and \<open>.iloc\<close> go by position. The two agree only while the index
  is \<open>0, 1, ..., n - 1\<close> in row order.
\<close>

type_synonym cell = "real option"

datatype error = KeyError | ValueError | IndexError | EOFError

record table =
  index_name :: "string option"
  index :: "int list"
  columns :: "(string \<times> cell list) list"

definition bind :: "error + 'a \<Rightarrow> ('a \<Rightarrow> error + 'b) \<Rightarrow> error + 'b" where
  "bind m f = (case m of Inl e \<Rightarrow> Inl e | Inr x \<Rightarrow> f x)"

definition len :: "table \<Rightarrow> nat" where
  "len df = length (index df)"

text \<open>The default index of a table of \<open>n\<close> rows: the labels \<open>0, ..., n - 1\<close>.\<close>

definition range_index :: "nat \<Rightarrow> int list" where
  "range_index n = map int [0..<n]"

definition column_names :: "table \<Rightarrow> string list" where
  "column_names df = map fst (columns df)"

text \<open>
  \<open>df[c]\<close>: the column named \<open>c\<close>, KeyError when there is none. When the name is
  carried by several columns pandas hands back a sub-table instead of a column, on which
  the scalar code of this program fails; the model reports that as ValueError.
\<close>

definition columns_named :: "table \<Rightarrow> string \<Rightarrow> cell list list" where
  "columns_named df c = map snd (filter (\<lambda>p. fst p = c) (columns df))"

definition get_column :: "table \<Rightarrow> string \<Rightarrow> error + cell list" where
  "get_column df c =
     (case columns_named df c of
        [] \<Rightarrow> Inl KeyError
      | [vs] \<Rightarrow> Inr vs
      | _ \<Rightarrow> Inl ValueError)"

text \<open>Positions of the rows that carry label \<open>l\<close>.\<close>

definition label_positions :: "table \<Rightarrow> int \<Rightarrow> nat list" where
  "label_positions df l = filter (\<lambda>p. index df ! p = l) [0..<len df]"

text \<open>
  \<open>df.loc[l, c]\<close>: the cell of column \<open>c\<close> in the row labelled \<open>l\<close>. KeyError when the
  label or the column is absent; a label carried by several rows yields a series, not a
  scalar, reported as ValueError like a repeated column name.
\<close>

definition loc :: "table \<Rightarrow> int \<Rightarrow> string \<Rightarrow> error + cell" where
  "loc df l c =
     bind (get_column df c) (\<lambda>vs.
       case label_positions df l of
         [] \<Rightarrow> Inl KeyError
       | [p] \<Rightarrow> Inr (vs ! p)
       | _ \<Rightarrow> Inl ValueError)"

text \<open>\<open>s.iloc[0]\<close> and \<open>s.iloc[-1]\<close>: by position, IndexError on an empty column.\<close>

definition iloc_first :: "cell list \<Rightarrow> error + cell" where
  "iloc_first vs = (case vs of [] \<Rightarrow> Inl IndexError | v # _ \<Rightarrow> Inr v)"

definition iloc_last :: "cell list \<Rightarrow> error + cell" where
  "iloc_last vs = (case vs of [] \<Rightarrow> Inl IndexError | _ # _ \<Rightarrow> Inr (last vs))"

text \<open>
  Storing a column under a name: every column of that name is replaced, a new name is
  appended as the last column.
\<close>

definition assign :: "string \<Rightarrow> cell list \<Rightarrow> (string \<times> cell list) list \<Rightarrow> (string \<times> cell list) list" where
  "assign c vs cols =
     (if c \<in> fst ` set cols then map (\<lambda>p. if fst p = c then (c, vs) else p) cols
      else cols @ [(c, vs)])"

text \<open>
  \<open>df[c] = values\<close> with a plain list: the values are attached by position, whatever the
  row labels are. On a table that has rows the list must have as many entries as the
  table has rows (ValueError otherwise). On a table with no rows pandas takes a non-empty
  list as the new rows: the index becomes \<open>0, ..., length values - 1\<close> and every column
  already there is filled with missing values.
\<close>

definition set_column :: "table \<Rightarrow> string \<Rightarrow> cell list \<Rightarrow> error + table" where
  "set_column df c vs =
     (if len df = 0 \<and> vs \<noteq> [] then
        Inr (df\<lparr>index := range_index (length vs),
                columns := assign c vs (map (\<lambda>p. (fst p, replicate (length vs) None)) (columns df))\<rparr>)
      else if length vs \<noteq> len df then Inl ValueError
      else Inr (df\<lparr>columns := assign c vs (columns df)\<rparr>))"

text \<open>The rows at the given positions, in that order, each with its label.\<close>

definition take_rows :: "table \<Rightarrow> nat list \<Rightarrow> table" where
  "take_rows df ps =
     df\<lparr>index := map (\<lambda>p. index df ! p) ps,
        columns := map (\<lambda>c. (fst c, map (\<lambda>p. snd c ! p) ps)) (columns df)\<rparr>"

section \<open>calculate_growth_rate\<close>

text \<open>
  One round of the loop (source lines 21 to 25). A missing previous value is not equal
  to 0, so the else branch runs and the arithmetic yields a missing value.
\<close>

definition growth_rate :: "cell \<Rightarrow> cell \<Rightarrow> cell" where
  "growth_rate previous_year current_year =
     (if previous_year = Some 0 then Some 0
      else (case (previous_year, current_year) of
              (Some p, Some c) \<Rightarrow> Some (((c - p) / p) * 100)
            | _ \<Rightarrow> None))"

text \<open>The loop \<open>for i in range(1, len(df))\<close>, with the list it appends to.\<close>

fun growth_loop :: "table \<Rightarrow> string \<Rightarrow> nat list \<Rightarrow> cell list \<Rightarrow> error + cell list" where
  "growth_loop df metric_column [] growth_rates = Inr growth_rates"
| "growth_loop df metric_column (i # rest) growth_rates =
     bind (loc df (int i - 1) metric_column) (\<lambda>previous_year.
     bind (loc df (int i) metric_column) (\<lambda>current_year.
       growth_loop df metric_column rest
         (growth_rates @ [growth_rate previous_year current_year])))"

text \<open>The list \<open>growth_rates\<close> as it stands when the loop is left (source lines 15 to 25).\<close>

definition growth_rates_of :: "table \<Rightarrow> string \<Rightarrow> error + cell list" where
  "growth_rates_of df metric_column = growth_loop df metric_column [1..<len df] [Some 0]"

definition calculate_growth_rate :: "table \<Rightarrow> string \<Rightarrow> error + table" where
  "calculate_growth_rate df metric_column =
     bind (growth_rates_of df metric_column) (\<lambda>growth_rates.
       set_column df ''Growth Rate (%)'' growth_rates)"

section \<open>index_rename_and_calculate_growth_rate\<close>

text \<open>
  \<open>df.reset_index(inplace=True)\<close>: the old row labels become the first column, named
  after the index, or \<open>index\<close> for an unnamed index (\<open>level_0\<close> when \<open>index\<close> is
  taken); ValueError when that name is taken too. The rows get the default index.
\<close>

definition reset_index :: "table \<Rightarrow> error + table" where
  "reset_index df =
     (let name = (case index_name df of
                    Some nm \<Rightarrow> nm
                  | None \<Rightarrow> if ''index'' \<in> set (column_names df) then ''level_0'' else ''index'')
      in if name \<in> set (column_names df) then Inl ValueError
         else Inr \<lparr>index_name = None, index = range_index (len df),
                   columns = (name, map (\<lambda>l. Some (real_of_int l)) (index df)) # columns df\<rparr>)"

text \<open>
  Text. A Python string is a sequence of Unicode code points. A column name is a
  \<open>string\<close> whose characters are read as the code points below 256; a line typed by the
  user is a list of code points of any size.

  \<open>str.strip()\<close> removes from both ends the code points that Python takes for whitespace:
  U+0009 to U+000D, U+001C to U+0020, U+0085, U+00A0, U+1680, U+2000 to U+200A, U+2028,
  U+2029, U+202F, U+205F and U+3000.
\<close>

definition is_space_code :: "int \<Rightarrow> bool" where
  "is_space_code c =
     ((9 \<le> c \<and> c \<le> 13) \<or> (28 \<le> c \<and> c \<le> 32) \<or> c = 133 \<or> c = 160 \<or> c = 5760
      \<or> (8192 \<le> c \<and> c \<le> 8202) \<or> c = 8232 \<or> c = 8233 \<or> c = 8239 \<or> c = 8287 \<or> c = 12288)"

definition is_space :: "char \<Rightarrow> bool" where
  "is_space c = is_space_code (of_char c)"

definition strip :: "string \<Rightarrow> string" where
  "strip s = rev (dropWhile is_space (rev (dropWhile is_space s)))"

definition strip_text :: "int list \<Rightarrow> int list" where
  "strip_text s = rev (dropWhile is_space_code (rev (dropWhile is_space_code s)))"

text \<open>
  \<open>str.upper()\<close> replaces every code point by its upper-case mapping, which is one to
  three code points long. On ASCII only the letters a to z change. Outside ASCII the
  mapping is the table of the Unicode version the interpreter was built with, the
  parameter \<open>unicode_upper\<close>; the two entries that lead into ASCII are written out: U+017F
  (long s) becomes S and U+0131 (dotless i) becomes I.
\<close>

definition upper_code :: "(int \<Rightarrow> int list) \<Rightarrow> int \<Rightarrow> int list" where
  "upper_code unicode_upper c =
     (if 97 \<le> c \<and> c \<le> 122 then [c - 32]
      else if c < 128 then [c]
      else if c = 383 then [83]
      else if c = 305 then [73]
      else unicode_upper c)"

definition upper :: "(int \<Rightarrow> int list) \<Rightarrow> int list \<Rightarrow> int list" where
  "upper unicode_upper s = concat (map (upper_code unicode_upper) s)"

text \<open>The code points of a string literal of the program.\<close>

definition codes :: "string \<Rightarrow> int list" where
  "codes s = map of_char s"

text \<open>\<open>df.columns = df.columns.str.strip()\<close>\<close>

definition strip_columns :: "table \<Rightarrow> table" where
  "strip_columns df = df\<lparr>columns := map (\<lambda>p. (strip (fst p), snd p)) (columns df)\<rparr>"

text \<open>
  \<open>df.rename(columns=d)\<close>: every column whose name is a key of the dictionary takes the
  name stored under it, all at once; keys that name no column are ignored.
\<close>

definition rename_columns :: "(string \<times> string) list \<Rightarrow> table \<Rightarrow> table" where
  "rename_columns d df =
     df\<lparr>columns := map (\<lambda>p. (case map_of d (fst p) of None \<Rightarrow> fst p | Some n \<Rightarrow> n, snd p)) (columns df)\<rparr>"

text \<open>\<open>a > b\<close> on cells: a comparison with a missing value is false.\<close>

definition gt :: "cell \<Rightarrow> cell \<Rightarrow> bool" where
  "gt a b = (case (a, b) of (Some x, Some y) \<Rightarrow> x > y | _ \<Rightarrow> False)"

text \<open>
  \<open>df.sort_values(by=c, inplace=True)\<close>: the rows in ascending order of column \<open>c\<close>,
  missing values last. Every row keeps its label: the index is permuted with the rows,
  it is not renumbered. (Rows with equal keys are kept in their order here; pandas leaves
  their order to the sorting routine.)
\<close>

definition nan_last :: "cell \<Rightarrow> nat \<times> real" where
  "nan_last c = (case c of None \<Rightarrow> (1, 0) | Some r \<Rightarrow> (0, r))"

definition sort_values :: "table \<Rightarrow> string \<Rightarrow> error + table" where
  "sort_values df c =
     bind (get_column df c) (\<lambda>ks.
       Inr (take_rows df (sort_key (\<lambda>p. nan_last (ks ! p)) [0..<len df])))"

text \<open>\<open>df['Year'] - host_year\<close>, cell by cell.\<close>

definition minus_host :: "int \<Rightarrow> cell \<Rightarrow> cell" where
  "minus_host host_year y = map_option (\<lambda>r. r - real_of_int host_year) y"

text \<open>
  Source lines 41 to 44: the index becomes a column, the column names are stripped and
  renamed. \<open>rename_dict\<close> is optional and an empty dictionary counts as none.
\<close>

definition reset_strip_rename :: "table \<Rightarrow> (string \<times> string) list option \<Rightarrow> error + table" where
  "reset_strip_rename df rename_dict =
     bind (reset_index df) (\<lambda>df1.
       let df2 = strip_columns df1
       in Inr (case rename_dict of
                 None \<Rightarrow> df2
               | Some d \<Rightarrow> if d = [] then df2 else rename_columns d df2))"

text \<open>
  The function (source lines 41 to 50). \<open>host_year\<close> and \<open>metric_column\<close> default to
  None in the source and every use of the function supplies them; they are plain
  arguments here. The Relative Year column is a series over the table's own index, so
  it is stored row by row like a list.
\<close>

definition index_rename_and_calculate_growth_rate ::
  "table \<Rightarrow> (string \<times> string) list option \<Rightarrow> int \<Rightarrow> string \<Rightarrow> error + table" where
  "index_rename_and_calculate_growth_rate df rename_dict host_year metric_column =
     bind (reset_strip_rename df rename_dict) (\<lambda>df3.
     bind (get_column df3 ''Year'') (\<lambda>years.
     bind (iloc_first years) (\<lambda>first_year.
     bind (iloc_last years) (\<lambda>last_year.
     bind (if gt first_year last_year then sort_values df3 ''Year'' else Inr df3) (\<lambda>df4.
     bind (calculate_growth_rate df4 metric_column) (\<lambda>df5.
     bind (get_column df5 ''Year'') (\<lambda>years5.
       set_column df5 ''Relative Year'' (map (minus_host host_year) years5))))))))"

section \<open>load_and_merge_data\<close>

text \<open>\<open>df[[c1, c2, ...]]\<close>: the named columns in the order asked for, KeyError when one is absent.\<close>

definition select_columns :: "table \<Rightarrow> string list \<Rightarrow> error + table" where
  "select_columns df cs =
     (if set cs \<subseteq> set (column_names df)
      then Inr (df\<lparr>columns := concat (map (\<lambda>c. filter (\<lambda>p. fst p = c) (columns df)) cs)\<rparr>)
      else Inl KeyError)"

text \<open>
  \<open>left.merge(right, on=key, how="left")\<close>: every row of the left table, in order, once
  for each right row with the same key (in the order of the right table), and once with
  missing values when no right row has the key. Missing keys match each other. The
  result has the default index. A column name other than the key that both tables carry
  is told apart by the suffixes \<open>_x\<close> and \<open>_y\<close>.
\<close>

definition matches :: "cell list \<Rightarrow> nat \<Rightarrow> cell \<Rightarrow> (nat option) list" where
  "matches right_keys n k =
     (case filter (\<lambda>j. right_keys ! j = k) [0..<n] of
        [] \<Rightarrow> [None]
      | js \<Rightarrow> map Some js)"

definition join_rows :: "cell list \<Rightarrow> cell list \<Rightarrow> (nat \<times> nat option) list" where
  "join_rows left_keys right_keys =
     concat (map (\<lambda>i. map (\<lambda>j. (i, j)) (matches right_keys (length right_keys) (left_keys ! i)))
                 [0..<length left_keys])"

definition merge_left :: "table \<Rightarrow> table \<Rightarrow> string \<Rightarrow> error + table" where
  "merge_left left_df right_df key =
     bind (get_column left_df key) (\<lambda>left_keys.
     bind (get_column right_df key) (\<lambda>right_keys.
       let rows = join_rows left_keys right_keys;
           overlap = filter (\<lambda>n. n \<noteq> key \<and> n \<in> set (column_names right_df)) (column_names left_df)
       in Inr \<lparr>index_name = None, index = range_index (length rows),
                columns =
                  map (\<lambda>c. (if fst c \<in> set overlap then fst c @ ''_x'' else fst c,
                             map (\<lambda>r. snd c ! fst r) rows)) (columns left_df)
                  @ map (\<lambda>c. (if fst c \<in> set overlap then fst c @ ''_y'' else fst c,
                               map (\<lambda>r. case snd r of None \<Rightarrow> None | Some j \<Rightarrow> snd c ! j) rows))
                        (filter (\<lambda>c. fst c \<noteq> key) (columns right_df))\<rparr>))"

text \<open>\<open>pd.DataFrame()\<close> and \<open>df.empty\<close>: a table is empty when it has no row or no column.\<close>

definition empty_table :: table where
  "empty_table = \<lparr>index_name = None, index = [], columns = []\<rparr>"

definition is_empty :: "table \<Rightarrow> bool" where
  "is_empty df = (len df = 0 \<or> columns df = [])"

text \<open>Source lines 208 and 209: the key and the metric of one country, the metric renamed.\<close>

definition country_columns :: "string \<Rightarrow> string \<Rightarrow> table \<Rightarrow> error + table" where
  "country_columns metric_name tag data =
     bind (select_columns data [''Relative Year'', metric_name]) (\<lambda>sub.
       Inr (rename_columns [(metric_name, metric_name @ ''_'' @ tag)] sub))"

text \<open>
  The loop over \<open>cleaned_data_dict.items()\<close>. The dictionary is the list of its items in
  insertion order; each value holds the table under \<open>"AUS"\<close> and the one under \<open>"CHI"\<close>.
\<close>

fun merge_loop :: "(string \<times> table \<times> table) list \<Rightarrow> table \<Rightarrow> error + table" where
  "merge_loop [] merged_data = Inr merged_data"
| "merge_loop ((metric_name, aus, chi) # rest) merged_data =
     bind (country_columns metric_name ''AUS'' aus) (\<lambda>aus_data.
     bind (country_columns metric_name ''CHI'' chi) (\<lambda>chi_data.
     bind (if is_empty merged_data
           then merge_left aus_data chi_data ''Relative Year''
           else bind (merge_left merged_data aus_data ''Relative Year'') (\<lambda>m.
                  merge_left m chi_data ''Relative Year''))
          (\<lambda>merged. merge_loop rest merged)))"

definition load_and_merge_data :: "(string \<times> table \<times> table) list \<Rightarrow> error + table" where
  "load_and_merge_data cleaned_data_dict = merge_loop cleaned_data_dict empty_table"

section \<open>calculate_correlation\<close>

text \<open>
  A correlation matrix: its row and column labels (the same list) and its entries, row
  by row.
\<close>

record matrix =
  labels :: "string list"
  entries :: "cell list list"

text \<open>
  \<open>DataFrame.corr()\<close> (Pearson, \<open>min_periods = 1\<close>). For two columns pandas takes the
  rows where both have a value, and from them the sums of squared deviations from the
  mean \<open>ssqdm_x\<close>, \<open>ssqdm_y\<close> and the sum of products of deviations \<open>covxy\<close>. The entry
  is \<open>covxy / sqrt (ssqdm_x * ssqdm_y)\<close> when that divisor is not 0 and NaN otherwise;
  with no such row it is NaN.
\<close>

definition complete_pairs :: "cell list \<Rightarrow> cell list \<Rightarrow> (real \<times> real) list" where
  "complete_pairs xs ys =
     concat (map (\<lambda>p. case p of (Some x, Some y) \<Rightarrow> [(x, y)] | _ \<Rightarrow> []) (zip xs ys))"

definition mean :: "real list \<Rightarrow> real" where
  "mean vs = sum_list vs / real (length vs)"

definition covxy :: "(real \<times> real) list \<Rightarrow> real" where
  "covxy ps =
     sum_list (map (\<lambda>p. (fst p - mean (map fst ps)) * (snd p - mean (map snd ps))) ps)"

definition ssqdm :: "real list \<Rightarrow> real" where
  "ssqdm vs = sum_list (map (\<lambda>v. (v - mean vs) * (v - mean vs)) vs)"

text \<open>The numbers a column holds, its missing cells left out.\<close>

definition values_of :: "cell list \<Rightarrow> real list" where
  "values_of xs = map fst (complete_pairs xs xs)"

definition pearson :: "cell list \<Rightarrow> cell list \<Rightarrow> cell" where
  "pearson xs ys =
     (let ps = complete_pairs xs ys;
          divisor = sqrt (ssqdm (map fst ps) * ssqdm (map snd ps))
      in if length ps < 1 then None
         else if divisor \<noteq> 0 then Some (covxy ps / divisor)
         else None)"

definition corr :: "table \<Rightarrow> matrix" where
  "corr df =
     \<lparr>labels = column_names df,
      entries = map (\<lambda>x. map (\<lambda>y. pearson (snd x) (snd y)) (columns df)) (columns df)\<rparr>"

text \<open>\<open>s.between(lower, upper)\<close>: both bounds included, false on a missing value.\<close>

definition between :: "real \<Rightarrow> real \<Rightarrow> cell \<Rightarrow> bool" where
  "between lo hi c = (case c of None \<Rightarrow> False | Some r \<Rightarrow> lo \<le> r \<and> r \<le> hi)"

text \<open>\<open>df[mask]\<close>: the rows whose mask entry is true.\<close>

definition filter_rows :: "table \<Rightarrow> bool list \<Rightarrow> table" where
  "filter_rows df keep = take_rows df (filter (\<lambda>p. keep ! p) [0..<len df])"

text \<open>
  Source lines 231 and 232: the rows of the time window. \<open>time_period\<close> is None or a
  pair of bounds; a pair is never falsy, so a given window always filters.
\<close>

definition window_of :: "table \<Rightarrow> (real \<times> real) option \<Rightarrow> error + table" where
  "window_of df time_period =
     (case time_period of
        None \<Rightarrow> Inr df
      | Some (lo, hi) \<Rightarrow>
          bind (get_column df ''Relative Year'') (\<lambda>relative_year.
            Inr (filter_rows df (map (between lo hi) relative_year))))"

text \<open>The function (source lines 231 to 233).\<close>

definition calculate_correlation ::
  "table \<Rightarrow> string list \<Rightarrow> (real \<times> real) option \<Rightarrow> error + matrix" where
  "calculate_correlation df metrics time_period =
     bind (window_of df time_period) (\<lambda>windowed.
     bind (select_columns windowed metrics) (\<lambda>sub. Inr (corr sub)))"

text \<open>
  The window in the words of the specification, to set beside \<open>filter_rows\<close>: of a
  column, the cells of exactly the rows whose Relative Year lies within the bounds, both
  bounds included.
\<close>

definition rows_in_window :: "real \<Rightarrow> real \<Rightarrow> cell list \<Rightarrow> cell list \<Rightarrow> cell list" where
  "rows_in_window lo hi relative_year xs =
     map snd (filter (\<lambda>p. case fst p of None \<Rightarrow> False | Some r \<Rightarrow> lo \<le> r \<and> r \<le> hi)
                     (zip relative_year xs))"

text \<open>
  The Pearson correlation in the words of the specification, to set beside \<open>pearson\<close>:
  the product-moment coefficient of the rows in which both columns hold a number,
  \<open>(n \<Sigma>xy - \<Sigma>x \<Sigma>y) / (sqrt (n \<Sigma>x\<^sup>2 - (\<Sigma>x)\<^sup>2) * sqrt (n \<Sigma>y\<^sup>2 - (\<Sigma>y)\<^sup>2))\<close> over these \<open>n\<close>
  rows, and a missing value where that quotient is undefined (its denominator is 0).
\<close>

definition observed_pairs :: "cell list \<Rightarrow> cell list \<Rightarrow> (real \<times> real) list" where
  "observed_pairs xs ys =
     map (\<lambda>p. (the (fst p), the (snd p)))
         (filter (\<lambda>p. fst p \<noteq> None \<and> snd p \<noteq> None) (zip xs ys))"

definition pearson_coefficient :: "cell list \<Rightarrow> cell list \<Rightarrow> cell" where
  "pearson_coefficient xs ys =
     (let ps = observed_pairs xs ys;
          n = real (length ps);
          sx = (\<Sum>p\<leftarrow>ps. fst p);
          sy = (\<Sum>p\<leftarrow>ps. snd p);
          sxx = (\<Sum>p\<leftarrow>ps. fst p * fst p);
          syy = (\<Sum>p\<leftarrow>ps. snd p * snd p);
          sxy = (\<Sum>p\<leftarrow>ps. fst p * snd p);
          denominator = sqrt (n * sxx - sx * sx) * sqrt (n * syy - sy * sy)
      in if denominator = 0 then None else Some ((n * sxy - sx * sy) / denominator))"

section \<open>compute_country_correlation_matrices\<close>

text \<open>
  What the program prints, one item for each \<open>print\<close> (and each prompt of \<open>input\<close>):
  a line of text, a correlation matrix, or a reported number or pair, whose rendering as
  text is left to Python.
\<close>

datatype printout =
    Text string
  | Prompt string
  | Frame matrix
  | Strongest "(string \<times> string) option" cell
  | Weakest "(string \<times> string) option" cell
  | Correlation string string string cell

definition newline :: char where
  "newline = CHR 0x0A"

text \<open>\<open>d[k] = v\<close> on a dictionary kept as the list of its items.\<close>

fun dict_set :: "'k \<Rightarrow> 'v \<Rightarrow> ('k \<times> 'v) list \<Rightarrow> ('k \<times> 'v) list" where
  "dict_set k v [] = [(k, v)]"
| "dict_set k v (p # ps) = (if fst p = k then (k, v) # ps else p # dict_set k v ps)"

text \<open>\<open>correlation_matrices[country][group] = group_corr\<close>\<close>

definition set_entry ::
  "string \<Rightarrow> string \<Rightarrow> matrix \<Rightarrow> (string \<times> (string \<times> matrix) list) list
     \<Rightarrow> (string \<times> (string \<times> matrix) list) list" where
  "set_entry country group_name group_corr correlation_matrices =
     map (\<lambda>p. if fst p = country then (fst p, dict_set group_name group_corr (snd p)) else p)
         correlation_matrices"

text \<open>Source line 259: the columns \<open>{metric}{suffix}\<close> that the merged table has.\<close>

definition group_columns_of :: "table \<Rightarrow> string \<Rightarrow> string list \<Rightarrow> string list" where
  "group_columns_of merged_data suffix metrics =
     filter (\<lambda>c. c \<in> set (column_names merged_data)) (map (\<lambda>metric. metric @ suffix) metrics)"

definition not_enough :: "string \<Rightarrow> string \<Rightarrow> printout" where
  "not_enough group_name country =
     Text (''Not enough data for '' @ group_name @ '' metrics in '' @ country @ ''.'')"

text \<open>The loop over the metric groups for one country (source lines 258 to 266).\<close>

fun group_loop ::
  "table \<Rightarrow> string \<Rightarrow> string \<Rightarrow> (string \<times> string list) list
     \<Rightarrow> printout list \<times> (string \<times> (string \<times> matrix) list) list
     \<Rightarrow> error + printout list \<times> (string \<times> (string \<times> matrix) list) list" where
  "group_loop merged_data country suffix [] st = Inr st"
| "group_loop merged_data country suffix ((group_name, metrics) # rest) (out, correlation_matrices) =
     (let group_columns = group_columns_of merged_data suffix metrics
      in if length group_columns > 1
         then bind (calculate_correlation merged_data group_columns (Some (- 5, 5))) (\<lambda>group_corr.
                group_loop merged_data country suffix rest
                  (out @ [Text (newline # group_name @ '' Correlation Matrix for '' @ country @ '':''),
                          Frame group_corr],
                   set_entry country group_name group_corr correlation_matrices))
         else group_loop merged_data country suffix rest
                (out @ [not_enough group_name country], correlation_matrices))"

text \<open>The loop over the countries (source lines 256 and 257).\<close>

fun country_loop ::
  "table \<Rightarrow> (string \<times> string list) list \<Rightarrow> (string \<times> string) list
     \<Rightarrow> printout list \<times> (string \<times> (string \<times> matrix) list) list
     \<Rightarrow> error + printout list \<times> (string \<times> (string \<times> matrix) list) list" where
  "country_loop merged_data metric_groups [] st = Inr st"
| "country_loop merged_data metric_groups ((country, suffix) # rest) (out, correlation_matrices) =
     bind (group_loop merged_data country suffix metric_groups
             (out @ [Text (newline # ''Computing correlation matrices for '' @ country @ '':'')],
              correlation_matrices))
          (country_loop merged_data metric_groups rest)"

text \<open>
  The function returns the dictionary of matrices; the model returns what was printed
  with it. Both dictionaries are lists of their items.
\<close>

definition compute_country_correlation_matrices ::
  "table \<Rightarrow> (string \<times> string list) list \<Rightarrow> (string \<times> string) list
     \<Rightarrow> error + printout list \<times> (string \<times> (string \<times> matrix) list) list" where
  "compute_country_correlation_matrices merged_data metric_groups country_suffix =
     country_loop merged_data metric_groups country_suffix
       ([], map (\<lambda>p. (fst p, [])) country_suffix)"

section \<open>highlight_key_correlations_all_matrices\<close>

text \<open>
  \<open>matrix.where(~np.eye(matrix.shape[0], dtype=bool))\<close>: the diagonal entries become
  missing. The mask is square, so a matrix that is not raises ValueError.
\<close>

definition mask_diagonal :: "matrix \<Rightarrow> error + matrix" where
  "mask_diagonal m =
     (if list_all (\<lambda>row. length row = length (entries m)) (entries m)
      then Inr (m\<lparr>entries :=
                   map (\<lambda>i. map (\<lambda>j. if i = j then None else entries m ! i ! j)
                                 [0..<length (entries m)])
                       [0..<length (entries m)]\<rparr>)
      else Inl ValueError)"

text \<open>\<open>flattened.unstack()\<close>: the entries column by column, each under (column, row).\<close>

definition unstack :: "matrix \<Rightarrow> ((string \<times> string) \<times> cell) list" where
  "unstack m =
     concat (map (\<lambda>j. map (\<lambda>i. ((labels m ! j, labels m ! i), entries m ! i ! j))
                           [0..<length (entries m)])
                 [0..<length (entries m)])"

definition present :: "('a \<times> cell) list \<Rightarrow> ('a \<times> real) list" where
  "present s = concat (map (\<lambda>p. case snd p of None \<Rightarrow> [] | Some v \<Rightarrow> [(fst p, v)]) s)"

fun first_best :: "(real \<Rightarrow> real \<Rightarrow> bool) \<Rightarrow> 'a \<times> real \<Rightarrow> ('a \<times> real) list \<Rightarrow> 'a \<times> real" where
  "first_best better b [] = b"
| "first_best better b (p # ps) = first_best better (if better (snd p) (snd b) then p else b) ps"

text \<open>
  \<open>idxmax()\<close> and \<open>idxmin()\<close>: the label of the first greatest (least) value, missing
  values skipped. On a series with no entry at all they raise ValueError. On a series
  whose entries are all missing the answer depends on the pandas release the program runs
  on, which the repository does not fix: up to 2.x the answer is a missing label (since
  2.1 with a warning that it will raise), from 3.0 on it is ValueError. The release is the
  first argument: \<open>True\<close> for the releases that raise.
\<close>

definition idx_best ::
  "bool \<Rightarrow> (real \<Rightarrow> real \<Rightarrow> bool) \<Rightarrow> ('a \<times> cell) list \<Rightarrow> error + 'a option" where
  "idx_best all_na_raises better s =
     (case present s of
        [] \<Rightarrow> if s = [] \<or> all_na_raises then Inl ValueError else Inr None
      | p # ps \<Rightarrow> Inr (Some (fst (first_best better p ps))))"

text \<open>\<open>max()\<close> and \<open>min()\<close>: missing values skipped, missing when nothing is left.\<close>

definition val_best :: "(real \<Rightarrow> real \<Rightarrow> bool) \<Rightarrow> ('a \<times> cell) list \<Rightarrow> cell" where
  "val_best better s =
     (case present s of
        [] \<Rightarrow> None
      | p # ps \<Rightarrow> Some (snd (first_best better p ps)))"

text \<open>The loop over the matrices (source lines 400 to 412).\<close>

fun highlight_loop :: "bool \<Rightarrow> (string \<times> matrix) list \<Rightarrow> printout list \<Rightarrow> error + printout list" where
  "highlight_loop all_na_raises [] out = Inr out"
| "highlight_loop all_na_raises ((group_name, m) # rest) out =
     bind (mask_diagonal m) (\<lambda>flattened.
     bind (idx_best all_na_raises (\<lambda>a b. a > b) (unstack flattened)) (\<lambda>strongest_pair.
     bind (idx_best all_na_raises (\<lambda>a b. a < b) (unstack flattened)) (\<lambda>weakest_pair.
       let strongest_value = val_best (\<lambda>a b. a > b) (unstack flattened);
           weakest_value = val_best (\<lambda>a b. a < b) (unstack flattened)
       in highlight_loop all_na_raises rest
            (out @ [Text (newline # group_name @ '' Correlation Matrix:''),
                    Strongest strongest_pair strongest_value,
                    Weakest weakest_pair weakest_value]))))"

definition highlight_key_correlations_all_matrices ::
  "bool \<Rightarrow> (string \<times> matrix) list \<Rightarrow> string \<Rightarrow> error + printout list" where
  "highlight_key_correlations_all_matrices all_na_raises correlation_matrices country =
     highlight_loop all_na_raises correlation_matrices
       [Text (newline # ''=== Highlighting Key Correlations for '' @ country @ '' ==='')]"

section \<open>predefined_correlation_analysis\<close>

definition predefined_combinations :: "(string \<times> string \<times> string \<times> string) list" where
  "predefined_combinations =
     [(''1'', ''Do GDP and FDI correlated?'', ''GDP_per_capita'', ''FDI''),
      (''2'', ''How does fiscal policy impact government consumption?'', ''GDP_per_capita'', ''Gov_Consumption''),
      (''3'', ''Does tourism impact economic growth?'', ''Num_Arrivals'', ''GDP_per_capita''),
      (''4'', ''Health trade-offs'', ''Obesity_rate'', ''Underweight_rate''),
      (''5'', ''Environmental cost of economic growth'', ''GDP_per_capita'', ''MtCO2e''),
      (''6'', ''Does increasing tourism lead to higher GHG emission?'', ''Num_Arrivals'', ''MtCO2e''),
      (''7'', ''Economic growth's effect on employment'', ''Unemployment_Rate(%)'', ''GDP_per_capita'')]"

text \<open>
  What a run of the analysis leaves behind: what it printed, the correlation it computed
  (if it got that far), whether it drew the scatter plot, and the merged table as it is
  afterwards.
\<close>

record analysis =
  printed :: "printout list"
  computed :: "cell option"
  plotted :: bool
  merged :: table

text \<open>\<open>input(prompt)\<close>: the next line the user types, EOFError when there is none.\<close>

definition input_line :: "int list list \<Rightarrow> error + int list \<times> int list list" where
  "input_line stdin = (case stdin of [] \<Rightarrow> Inl EOFError | l # rest \<Rightarrow> Inr (l, rest))"

definition menu :: "printout list" where
  "menu = Text (newline # ''Available Metric Combinations:'')
          # map (\<lambda>p. Text (fst p @ '': '' @ fst (snd p))) predefined_combinations"

text \<open>
  The function (source lines 340 to 388); \<open>stdin\<close> holds the lines the user types.
  \<open>selected_key not in predefined_combinations\<close> and \<open>country not in ["AUS", "CHI"]\<close>
  compare what the user typed with the literals of the program, code point by code
  point: \<open>find\<close> returns the literal that is equal to it, and on that branch the key and
  the country are that literal.
\<close>

definition predefined_correlation_analysis ::
  "(int \<Rightarrow> int list) \<Rightarrow> table \<Rightarrow> int list list \<Rightarrow> error + analysis" where
  "predefined_correlation_analysis unicode_upper merged_data stdin =
     bind (input_line stdin) (\<lambda>(line1, stdin1).
       let out1 = menu @ [Prompt (newline # ''Choose a combination number (e.g., 1): '')];
           selected_key = strip_text line1
       in case find (\<lambda>p. codes (fst p) = selected_key) predefined_combinations of
            None \<Rightarrow>
              Inr \<lparr>printed = out1 @ [Text ''Invalid selection!''], computed = None,
                   plotted = False, merged = merged_data\<rparr>
          | Some (key, description, metric1, metric2) \<Rightarrow>
              bind (input_line stdin1) (\<lambda>(line2, stdin2).
                let out2 = out1 @ [Text (newline # ''Selected combination: '' @ description),
                                   Prompt ''Select a country suffix (AUS or CHI): ''];
                    typed_country = upper unicode_upper (strip_text line2)
                in case find (\<lambda>tag. codes tag = typed_country) [''AUS'', ''CHI''] of
                     None \<Rightarrow>
                       Inr \<lparr>printed = out2 @ [Text ''Invalid country suffix!''], computed = None,
                            plotted = False, merged = merged_data\<rparr>
                   | Some country \<Rightarrow>
                     let suffix = ''_'' @ country;
                         out3 = out2 @ [Text (newline # ''Selected country suffix: '' @ country)];
                         metric1_col = metric1 @ suffix;
                         metric2_col = metric2 @ suffix;
                         out4 = out3 @ [Text (''Checking columns: '' @ metric1_col @ '' and '' @ metric2_col)]
                     in if metric1_col \<notin> set (column_names merged_data)
                           \<or> metric2_col \<notin> set (column_names merged_data)
                        then Inr \<lparr>printed = out4 @ [Text (''Missing: '' @ metric1_col @ '' or '' @ metric2_col
                                                          @ '' in '' @ country @ ''. Cannot calculate correlation.'')],
                                  computed = None, plotted = False, merged = merged_data\<rparr>
                        else bind (select_columns merged_data [metric1_col, metric2_col]) (\<lambda>sub.
                               let correlation_value = entries (corr sub) ! 0 ! 1
                               in Inr \<lparr>printed = out4 @ [Correlation metric1 metric2 country correlation_value],
                                       computed = Some correlation_value, plotted = True,
                                       merged = merged_data\<rparr>)))"

section \<open>Properties of calculate_growth_rate\<close>

text \<open>On a table with the default index a label is the position of its row.\<close>

lemma filter_eq_upt: "filter (\<lambda>p. p = i) [0..<n] = (if i < n then [i] else [])"
  by (induction n) auto

lemma label_positions_range:
  assumes "index df = range_index n" "i < n"
  shows "label_positions df (int i) = [i]"
proof -
  have "filter (\<lambda>p. index df ! p = int i) [0..<n] = filter (\<lambda>p. p = i) [0..<n]"
    by (rule filter_cong) (auto simp: assms range_index_def)
  then show ?thesis
    using assms by (simp add: label_positions_def len_def range_index_def filter_eq_upt)
qed

lemma loc_range:
  "index df = range_index n \<Longrightarrow> get_column df m = Inr vs \<Longrightarrow> i < n \<Longrightarrow>
     loc df (int i) m = Inr (vs ! i)"
  by (simp add: loc_def bind_def label_positions_range)

lemma growth_loop_range:
  assumes "index df = range_index n" "get_column df m = Inr vs"
  shows "\<forall>i\<in>set js. 0 < i \<and> i < n \<Longrightarrow>
     growth_loop df m js acc = Inr (acc @ map (\<lambda>i. growth_rate (vs ! (i - 1)) (vs ! i)) js)"
proof (induction js arbitrary: acc)
  case Nil
  then show ?case by simp
next
  case (Cons j js)
  then have j: "0 < j" "j < n" by auto
  then have "int j - 1 = int (j - 1)" by simp
  then have "loc df (int j - 1) m = Inr (vs ! (j - 1))"
    using loc_range[OF assms, of "j - 1"] j by simp
  moreover have "loc df (int j) m = Inr (vs ! j)" using loc_range[OF assms] j by simp
  ultimately show ?case using Cons by (simp add: bind_def)
qed

lemma growth_rates_of_range:
  assumes "index df = range_index n" "get_column df m = Inr vs"
  shows "growth_rates_of df m = Inr (Some 0 # map (\<lambda>i. growth_rate (vs ! (i - 1)) (vs ! i)) [1..<n])"
proof -
  have "len df = n" using assms(1) by (simp add: len_def range_index_def)
  then show ?thesis
    using growth_loop_range[OF assms, of "[1..<n]" "[Some 0]"] by (simp add: growth_rates_of_def)
qed

lemma growth_loop_length:
  "growth_loop df m js acc = Inr g \<Longrightarrow> length g = length acc + length js"
proof (induction js arbitrary: acc)
  case Nil
  then show ?case by simp
next
  case (Cons j js)
  from Cons.prems obtain a b where
    "growth_loop df m js (acc @ [growth_rate a b]) = Inr g"
    by (auto simp: bind_def split: sum.splits)
  from Cons.IH[OF this] show ?case by simp
qed

lemma growth_rates_of_length:
  "growth_rates_of df m = Inr g \<Longrightarrow> length g = max 1 (len df)"
  by (auto simp: growth_rates_of_def dest: growth_loop_length)

text \<open>
  Claim C1, as the code has it. For every table of \<open>n \<ge> 1\<close> rows that carries the default
  index \<open>0, ..., n - 1\<close> and has the metric column, calculate_growth_rate attaches a
  growth sequence of \<open>n\<close> elements as the column \<open>Growth Rate (%)\<close>; element 0 is 0, and
  for every \<open>i > 0\<close> element \<open>i\<close> is 0 when the value in row \<open>i - 1\<close> is exactly 0 and
  otherwise is \<open>(value[i] - value[i-1]) / value[i-1] * 100\<close>: that number when both
  values are numbers, and a missing value when one of the two is missing. For the value
  sequence 100, 150, 0, 50 the growth sequence is 0, 50, -100, 0. (The claim says this
  of every table; the restriction to the default index is what the counterexample below
  forces.)
\<close>

theorem calculate_growth_rate_default_index:
  assumes "index df = range_index n" and "1 \<le> n" and "get_column df m = Inr vs"
  shows "(\<exists>g. calculate_growth_rate df m
               = Inr (df\<lparr>columns := assign ''Growth Rate (%)'' g (columns df)\<rparr>)
            \<and> length g = n \<and> g ! 0 = Some 0
            \<and> (\<forall>i. 0 < i \<and> i < n \<longrightarrow>
                  (vs ! (i - 1) = Some 0 \<longrightarrow> g ! i = Some 0)
                \<and> (\<forall>p c. vs ! (i - 1) = Some p \<and> p \<noteq> 0 \<and> vs ! i = Some c
                        \<longrightarrow> g ! i = Some ((c - p) / p * 100))
                \<and> (vs ! (i - 1) = None \<longrightarrow> g ! i = None)
                \<and> (\<forall>p. vs ! (i - 1) = Some p \<and> p \<noteq> 0 \<and> vs ! i = None \<longrightarrow> g ! i = None)))
         \<and> growth_rates_of
              \<lparr>index_name = None, index = range_index 4,
               columns = [(''value'', [Some 100, Some 150, Some 0, Some 50])]\<rparr> ''value''
            = Inr [Some 0, Some 50, Some (- 100), Some 0]"
proof
  define g where "g = Some 0 # map (\<lambda>i. growth_rate (vs ! (i - 1)) (vs ! i)) [1..<n]"
  have n: "len df = n" using assms(1) by (simp add: len_def range_index_def)
  have gr: "growth_rates_of df m = Inr g"
    unfolding g_def by (rule growth_rates_of_range[OF assms(1,3)])
  have lg: "length g = n" using assms(2) by (simp add: g_def)
  have g0: "g ! 0 = Some 0" by (simp add: g_def)
  have run: "calculate_growth_rate df m
               = Inr (df\<lparr>columns := assign ''Growth Rate (%)'' g (columns df)\<rparr>)"
    using gr lg n assms(2) by (simp add: calculate_growth_rate_def bind_def set_column_def)
  have gi: "g ! i = growth_rate (vs ! (i - 1)) (vs ! i)" if i: "0 < i" "i < n" for i
  proof -
    have "[1..<n] ! (i - 1) = i" using i nth_upt[of 1 "i - 1" n] by simp
    moreover have "g ! i = map (\<lambda>i. growth_rate (vs ! (i - 1)) (vs ! i)) [1..<n] ! (i - 1)"
      using i by (simp add: g_def nth_Cons')
    ultimately show ?thesis using i by simp
  qed
  have zero: "g ! i = Some 0" if "0 < i" "i < n" "vs ! (i - 1) = Some 0" for i
    using gi[OF that(1,2)] that(3) by (simp add: growth_rate_def)
  have rate: "g ! i = Some ((c - p) / p * 100)"
    if "0 < i" "i < n" "vs ! (i - 1) = Some p" "p \<noteq> 0" "vs ! i = Some c" for i p c
    using gi[OF that(1,2)] that(3,4,5) by (simp add: growth_rate_def)
  have no_previous: "g ! i = None" if "0 < i" "i < n" "vs ! (i - 1) = None" for i
    using gi[OF that(1,2)] that(3) by (simp add: growth_rate_def)
  have no_current: "g ! i = None"
    if "0 < i" "i < n" "vs ! (i - 1) = Some p" "p \<noteq> 0" "vs ! i = None" for i p
    using gi[OF that(1,2)] that(3,4,5) by (simp add: growth_rate_def)
  have each: "(vs ! (i - 1) = Some 0 \<longrightarrow> g ! i = Some 0)
                \<and> (\<forall>p c. vs ! (i - 1) = Some p \<and> p \<noteq> 0 \<and> vs ! i = Some c
                        \<longrightarrow> g ! i = Some ((c - p) / p * 100))
                \<and> (vs ! (i - 1) = None \<longrightarrow> g ! i = None)
                \<and> (\<forall>p. vs ! (i - 1) = Some p \<and> p \<noteq> 0 \<and> vs ! i = None \<longrightarrow> g ! i = None)"
    if "0 < i \<and> i < n" for i
    using that zero[of i] rate[of i] no_previous[of i] no_current[of i] by blast
  have every: "\<forall>i. 0 < i \<and> i < n \<longrightarrow>
                  (vs ! (i - 1) = Some 0 \<longrightarrow> g ! i = Some 0)
                \<and> (\<forall>p c. vs ! (i - 1) = Some p \<and> p \<noteq> 0 \<and> vs ! i = Some c
                        \<longrightarrow> g ! i = Some ((c - p) / p * 100))
                \<and> (vs ! (i - 1) = None \<longrightarrow> g ! i = None)
                \<and> (\<forall>p. vs ! (i - 1) = Some p \<and> p \<noteq> 0 \<and> vs ! i = None \<longrightarrow> g ! i = None)"
    by (intro allI impI) (rule each)
  show "\<exists>g. calculate_growth_rate df m
               = Inr (df\<lparr>columns := assign ''Growth Rate (%)'' g (columns df)\<rparr>)
            \<and> length g = n \<and> g ! 0 = Some 0
            \<and> (\<forall>i. 0 < i \<and> i < n \<longrightarrow>
                  (vs ! (i - 1) = Some 0 \<longrightarrow> g ! i = Some 0)
                \<and> (\<forall>p c. vs ! (i - 1) = Some p \<and> p \<noteq> 0 \<and> vs ! i = Some c
                        \<longrightarrow> g ! i = Some ((c - p) / p * 100))
                \<and> (vs ! (i - 1) = None \<longrightarrow> g ! i = None)
                \<and> (\<forall>p. vs ! (i - 1) = Some p \<and> p \<noteq> 0 \<and> vs ! i = None \<longrightarrow> g ! i = None))"
    by (rule exI[of _ g], intro conjI) (fact run lg g0 every)+
next
  show "growth_rates_of
              \<lparr>index_name = None, index = range_index 4,
               columns = [(''value'', [Some 100, Some 150, Some 0, Some 50])]\<rparr> ''value''
            = Inr [Some 0, Some 50, Some (- 100), Some 0]"
    by code_simp
qed

text \<open>
  The theorem at the table of the example, continued by a missing value and a 7: the
  hypotheses hold there and the attached sequence is 0, 50, -100, 0, followed by two
  missing values (a missing current value, then a missing previous value).
\<close>

theorem calculate_growth_rate_default_index_witness:
  "index \<lparr>index_name = None, index = range_index 6,
           columns = [(''value'', [Some 100, Some 150, Some 0, Some 50, None, Some 7])]\<rparr>
     = range_index 6
   \<and> (1::nat) \<le> 6
   \<and> get_column \<lparr>index_name = None, index = range_index 6,
           columns = [(''value'', [Some 100, Some 150, Some 0, Some 50, None, Some 7])]\<rparr> ''value''
       = Inr [Some 100, Some 150, Some 0, Some 50, None, Some 7]
   \<and> (\<exists>g. calculate_growth_rate \<lparr>index_name = None, index = range_index 6,
                columns = [(''value'', [Some 100, Some 150, Some 0, Some 50, None, Some 7])]\<rparr> ''value''
             = Inr \<lparr>index_name = None, index = range_index 6,
                    columns = [(''value'', [Some 100, Some 150, Some 0, Some 50, None, Some 7]),
                               (''Growth Rate (%)'', g)]\<rparr>
          \<and> length g = 6 \<and> g ! 0 = Some 0 \<and> g ! 1 = Some 50 \<and> g ! 2 = Some (- 100)
          \<and> g ! 3 = Some 0 \<and> g ! 4 = None \<and> g ! 5 = None)"
proof -
  let ?vs = "[Some 100, Some 150, Some 0, Some 50, None, Some 7] :: cell list"
  let ?df = "\<lparr>index_name = None, index = range_index 6, columns = [(''value'', ?vs)]\<rparr>"
  have h1: "index ?df = range_index 6" by simp
  have h2: "(1::nat) \<le> 6" by simp
  have h3: "get_column ?df ''value'' = Inr ?vs" by (simp add: get_column_def columns_named_def)
  from calculate_growth_rate_default_index[OF h1 h2 h3] obtain g where
    run: "calculate_growth_rate ?df ''value''
            = Inr (?df\<lparr>columns := assign ''Growth Rate (%)'' g (columns ?df)\<rparr>)" and
    lg: "length g = 6" and g0: "g ! 0 = Some 0" and
    gi: "\<forall>i. 0 < i \<and> i < 6 \<longrightarrow>
            (?vs ! (i - 1) = Some 0 \<longrightarrow> g ! i = Some 0)
          \<and> (\<forall>p c. ?vs ! (i - 1) = Some p \<and> p \<noteq> 0 \<and> ?vs ! i = Some c
                  \<longrightarrow> g ! i = Some ((c - p) / p * 100))
          \<and> (?vs ! (i - 1) = None \<longrightarrow> g ! i = None)
          \<and> (\<forall>p. ?vs ! (i - 1) = Some p \<and> p \<noteq> 0 \<and> ?vs ! i = None \<longrightarrow> g ! i = None)"
    by blast
  from spec[OF gi, of 1] have g1: "g ! 1 = Some 50" by simp
  from spec[OF gi, of 2] have g2: "g ! 2 = Some (- 100)" by simp
  from spec[OF gi, of 3] have g3: "g ! 3 = Some 0" by simp
  from spec[OF gi, of 4] have g4: "g ! 4 = None" by simp
  from spec[OF gi, of 5] have g5: "g ! 5 = None" by simp
  have "?df\<lparr>columns := assign ''Growth Rate (%)'' g (columns ?df)\<rparr>
          = \<lparr>index_name = None, index = range_index 6,
             columns = [(''value'', ?vs), (''Growth Rate (%)'', g)]\<rparr>"
    by (simp add: assign_def)
  with run have run': "calculate_growth_rate ?df ''value''
          = Inr \<lparr>index_name = None, index = range_index 6,
                 columns = [(''value'', ?vs), (''Growth Rate (%)'', g)]\<rparr>"
    by simp
  have "\<exists>g. calculate_growth_rate ?df ''value''
          = Inr \<lparr>index_name = None, index = range_index 6,
                 columns = [(''value'', ?vs), (''Growth Rate (%)'', g)]\<rparr>
          \<and> length g = 6 \<and> g ! 0 = Some 0 \<and> g ! 1 = Some 50 \<and> g ! 2 = Some (- 100)
          \<and> g ! 3 = Some 0 \<and> g ! 4 = None \<and> g ! 5 = None"
    by (rule exI[of _ g], intro conjI) (fact run' lg g0 g1 g2 g3 g4 g5)+
  with h1 h2 h3 show ?thesis by (intro conjI)
qed

text \<open>
  Claim C1 as stated fails. The function reads the rows through \<open>df.loc\<close>, by label. On
  the two-row table whose rows are labelled 1 and 0 and hold the values 10 and 20 the
  second growth rate is computed from the rows labelled 0 and 1, that is from 20 to 10,
  and is -50; going by the rows in order, from 10 to 20, the claim asks for 100.
\<close>

theorem calculate_growth_rate_label_lookup_counterexample:
  "\<not> (\<forall>df m vs. 1 \<le> len df \<and> get_column df m = Inr vs \<longrightarrow>
        (\<exists>df' g. calculate_growth_rate df m = Inr df'
           \<and> get_column df' ''Growth Rate (%)'' = Inr g
           \<and> (\<forall>i p c. 0 < i \<and> i < len df \<and> vs ! (i - 1) = Some p \<and> p \<noteq> 0 \<and> vs ! i = Some c
                 \<longrightarrow> g ! i = Some ((c - p) / p * 100))))"
proof
  let ?df = "\<lparr>index_name = None, index = [1, 0], columns = [(''GDP'', [Some 10, Some 20])]\<rparr>"
  let ?out = "\<lparr>index_name = None, index = [1, 0],
               columns = [(''GDP'', [Some 10, Some 20]), (''Growth Rate (%)'', [Some 0, Some (- 50)])]\<rparr>"
  assume claim: "\<forall>df m vs. 1 \<le> len df \<and> get_column df m = Inr vs \<longrightarrow>
        (\<exists>df' g. calculate_growth_rate df m = Inr df'
           \<and> get_column df' ''Growth Rate (%)'' = Inr g
           \<and> (\<forall>i p c. 0 < i \<and> i < len df \<and> vs ! (i - 1) = Some p \<and> p \<noteq> 0 \<and> vs ! i = Some c
                 \<longrightarrow> g ! i = Some ((c - p) / p * 100)))"
  have run: "calculate_growth_rate ?df ''GDP'' = Inr ?out" by code_simp
  have col: "get_column ?df ''GDP'' = Inr [Some 10, Some 20]" by code_simp
  have gcol: "get_column ?out ''Growth Rate (%)'' = Inr [Some 0, Some (- 50)]" by code_simp
  have "1 \<le> len ?df" by (simp add: len_def)
  with claim col obtain df' g where
    a: "calculate_growth_rate ?df ''GDP'' = Inr df'" and
    b: "get_column df' ''Growth Rate (%)'' = Inr g" and
    c: "\<forall>i p c. 0 < i \<and> i < len ?df \<and> [Some 10, Some 20] ! (i - 1) = Some p \<and> p \<noteq> 0 \<and> [Some 10, Some 20::real option] ! i = Some c
                 \<longrightarrow> g ! i = Some ((c - p) / p * 100)"
    by blast
  from a run have "df' = ?out" by simp
  with b gcol have g: "g = [Some 0, Some (- 50)]" by simp
  from c have "0 < (1::nat) \<and> 1 < len ?df \<and> [Some 10, Some 20] ! (1 - 1) = Some (10::real)
                 \<and> (10::real) \<noteq> 0 \<and> [Some 10, Some 20::real option] ! 1 = Some 20
                 \<longrightarrow> g ! 1 = Some ((20 - 10) / 10 * 100)"
    by blast
  then have "g ! 1 = Some ((20 - 10) / 10 * 100)"
    by (simp add: len_def)
  with g show False by simp
qed

text \<open>
  Claim C10, as the code has it. Whenever the loop of calculate_growth_rate completes,
  the list it built has \<open>max 1 n\<close> elements for a table of \<open>n\<close> rows; on a table that
  has rows these are exactly \<open>n\<close> elements and attaching them as \<open>Growth Rate (%)\<close>
  succeeds. The loop completes on every table with the default index and the metric
  column. On a table without rows the list is the single leading 0 and the assignment
  succeeds too: pandas grows the table to one row, labelled 0, fills the columns that
  were there with missing values and stores the 0.
\<close>

theorem growth_list_length_and_attachment:
  "(growth_rates_of df m = Inr g \<longrightarrow>
       length g = max 1 (len df)
     \<and> (0 < len df \<longrightarrow>
          length g = len df
        \<and> calculate_growth_rate df m
            = Inr (df\<lparr>columns := assign ''Growth Rate (%)'' g (columns df)\<rparr>)))
   \<and> (index df = range_index (len df) \<and> get_column df m = Inr vs \<longrightarrow>
        (\<exists>g'. growth_rates_of df m = Inr g'))
   \<and> (len df = 0 \<longrightarrow>
        growth_rates_of df m = Inr [Some 0]
      \<and> calculate_growth_rate df m
          = Inr (df\<lparr>index := range_index 1,
                    columns := assign ''Growth Rate (%)'' [Some 0]
                                 (map (\<lambda>p. (fst p, [None])) (columns df))\<rparr>))"
proof (intro conjI impI)
  assume g: "growth_rates_of df m = Inr g"
  show "length g = max 1 (len df)" by (rule growth_rates_of_length[OF g])
  assume pos: "0 < len df"
  then show lg: "length g = len df" using growth_rates_of_length[OF g] by simp
  show "calculate_growth_rate df m
          = Inr (df\<lparr>columns := assign ''Growth Rate (%)'' g (columns df)\<rparr>)"
    using g lg pos by (simp add: calculate_growth_rate_def bind_def set_column_def)
next
  assume "index df = range_index (len df) \<and> get_column df m = Inr vs"
  then show "\<exists>g'. growth_rates_of df m = Inr g'"
    using growth_rates_of_range[of df "len df" m vs] by blast
next
  assume z: "len df = 0"
  then show g: "growth_rates_of df m = Inr [Some 0]" by (simp add: growth_rates_of_def)
  show "calculate_growth_rate df m
          = Inr (df\<lparr>index := range_index 1,
                    columns := assign ''Growth Rate (%)'' [Some 0]
                                 (map (\<lambda>p. (fst p, [None])) (columns df))\<rparr>)"
    using g z by (simp add: calculate_growth_rate_def bind_def set_column_def)
qed

text \<open>The theorem at a table of two rows and at a table without rows.\<close>

theorem growth_list_length_and_attachment_witness:
  "growth_rates_of \<lparr>index_name = None, index = range_index 2,
                     columns = [(''GDP'', [Some 10, Some 20])]\<rparr> ''GDP'' = Inr [Some 0, Some 100]
   \<and> length [Some 0, Some (100::real)] = max 1 (len \<lparr>index_name = None, index = range_index 2,
                     columns = [(''GDP'', [Some 10, Some 20])]\<rparr>)
   \<and> calculate_growth_rate \<lparr>index_name = None, index = range_index 2,
                     columns = [(''GDP'', [Some 10, Some 20])]\<rparr> ''GDP''
       = Inr \<lparr>index_name = None, index = range_index 2,
              columns = [(''GDP'', [Some 10, Some 20]), (''Growth Rate (%)'', [Some 0, Some 100])]\<rparr>
   \<and> len \<lparr>index_name = None, index = [], columns = [(''GDP'', [])]\<rparr> = 0
   \<and> calculate_growth_rate \<lparr>index_name = None, index = [], columns = [(''GDP'', [])]\<rparr> ''GDP''
       = Inr \<lparr>index_name = None, index = [0],
              columns = [(''GDP'', [None]), (''Growth Rate (%)'', [Some 0])]\<rparr>"
proof -
  let ?df = "\<lparr>index_name = None, index = range_index 2, columns = [(''GDP'', [Some 10, Some 20])]\<rparr>"
  let ?e = "\<lparr>index_name = None, index = [], columns = [(''GDP'', [])]\<rparr>"
  have g: "growth_rates_of ?df ''GDP'' = Inr [Some 0, Some 100]" by code_simp
  have pos: "0 < len ?df" by (simp add: len_def range_index_def)
  have z: "len ?e = 0" by (simp add: len_def)
  note t1 = growth_list_length_and_attachment[of ?df "''GDP''" "[Some 0, Some 100]" "[]"]
  note t2 = growth_list_length_and_attachment[of ?e "''GDP''" "[]" "[]"]
  have a: "length [Some 0, Some (100::real)] = max 1 (len ?df)" using t1 g by blast
  have b: "calculate_growth_rate ?df ''GDP''
       = Inr (?df\<lparr>columns := assign ''Growth Rate (%)'' [Some 0, Some 100] (columns ?df)\<rparr>)"
    using t1 g pos by blast
  have c: "calculate_growth_rate ?e ''GDP''
          = Inr (?e\<lparr>index := range_index 1,
                    columns := assign ''Growth Rate (%)'' [Some 0]
                                 (map (\<lambda>p. (fst p, [None])) (columns ?e))\<rparr>)"
    using t2 z by blast
  from b have b': "calculate_growth_rate ?df ''GDP''
       = Inr \<lparr>index_name = None, index = range_index 2,
              columns = [(''GDP'', [Some 10, Some 20]), (''Growth Rate (%)'', [Some 0, Some 100])]\<rparr>"
    by (simp add: assign_def)
  from c have c': "calculate_growth_rate ?e ''GDP''
       = Inr \<lparr>index_name = None, index = [0],
              columns = [(''GDP'', [None]), (''Growth Rate (%)'', [Some 0])]\<rparr>"
    by (simp add: assign_def range_index_def)
  from g a b' z c' show ?thesis by blast
qed

text \<open>
  Claim C10 as stated fails in its last part: on the table without rows the assignment
  does not end in an error.
\<close>

theorem growth_on_empty_table_counterexample:
  "\<not> (\<forall>df m. len df = 0 \<longrightarrow> (\<exists>e. calculate_growth_rate df m = Inl e))"
proof
  assume "\<forall>df m. len df = 0 \<longrightarrow> (\<exists>e. calculate_growth_rate df m = Inl e)"
  then have "len \<lparr>index_name = None, index = [], columns = [(''GDP'', [])]\<rparr> = 0 \<longrightarrow>
     (\<exists>e. calculate_growth_rate \<lparr>index_name = None, index = [], columns = [(''GDP'', [])]\<rparr> ''GDP'' = Inl e)"
    by blast
  moreover have "calculate_growth_rate \<lparr>index_name = None, index = [], columns = [(''GDP'', [])]\<rparr> ''GDP''
     = Inr \<lparr>index_name = None, index = [0], columns = [(''GDP'', [None]), (''Growth Rate (%)'', [Some 0])]\<rparr>"
    by code_simp
  ultimately show False by (simp add: len_def)
qed

section \<open>Properties of index_rename_and_calculate_growth_rate\<close>

lemma bind_Inr_iff: "bind m f = Inr y \<longleftrightarrow> (\<exists>x. m = Inr x \<and> f x = Inr y)"
  by (cases m) (simp_all add: bind_def)








lemma columns_named_take_rows:
  "columns_named (take_rows df ps) c = map (\<lambda>v. map (\<lambda>p. v ! p) ps) (columns_named df c)"
  by (simp add: columns_named_def take_rows_def filter_map comp_def)

















text \<open>
  Claim C2 fails on the code. The table below has its years in descending order. The
  function sorts the rows by Year, but \<open>sort_values\<close> leaves every row its label, and
  calculate_growth_rate reads the rows by label: the growth rates are those of the
  values in the old, descending order (30, 20, 10), attached by position to the rows in
  ascending order. The growth rates of the values in ascending-Year order (10, 20, 30)
  are 0, 100, 50; the column holds 0, -100/3, -50.
\<close>

theorem growth_after_sort_uses_old_labels:
  "index_rename_and_calculate_growth_rate
     \<lparr>index_name = None, index = range_index 3,
      columns = [(''Year'', [Some 2002, Some 2001, Some 2000]),
                 (''GDP'', [Some 30, Some 20, Some 10])]\<rparr> None 2000 ''GDP''
   = Inr \<lparr>index_name = None, index = [2, 1, 0],
          columns = [(''index'', [Some 2, Some 1, Some 0]),
                     (''Year'', [Some 2000, Some 2001, Some 2002]),
                     (''GDP'', [Some 10, Some 20, Some 30]),
                     (''Growth Rate (%)'', [Some 0, Some (- (100 / 3)), Some (- 50)]),
                     (''Relative Year'', [Some 0, Some 1, Some 2])]\<rparr>
   \<and> growth_rates_of
        \<lparr>index_name = None, index = range_index 3,
         columns = [(''GDP'', [Some 10, Some 20, Some 30])]\<rparr> ''GDP''
     = Inr [Some 0, Some 100, Some 50]"
  by code_simp




section \<open>Properties of load_and_merge_data\<close>

text \<open>
  Claim C3 fails on the code. The loop tells the first metric from the later ones by
  \<open>merged_data.empty\<close>, which is also true of a table that has columns and no rows.
  When the AUS table of the first metric has no rows, the join of the first metric has
  none either, and the second metric starts the merged table afresh: below, the result
  has no column \<open>GDP_AUS\<close> or \<open>GDP_CHI\<close> and its Relative Year values are those of the
  FDI table, not the (empty) set of the first join. With a first AUS table that has
  rows, the same metrics give the table the claim describes.
\<close>

theorem merge_restarts_after_empty_first_metric:
  "load_and_merge_data
     [(''GDP'',
       \<lparr>index_name = None, index = [], columns = [(''Relative Year'', []), (''GDP'', [])]\<rparr>,
       \<lparr>index_name = None, index = range_index 2,
        columns = [(''Relative Year'', [Some 0, Some 1]), (''GDP'', [Some 3, Some 2])]\<rparr>),
      (''FDI'',
       \<lparr>index_name = None, index = range_index 2,
        columns = [(''Relative Year'', [Some 1, Some 2]), (''FDI'', [Some 7, Some 8])]\<rparr>,
       \<lparr>index_name = None, index = range_index 1,
        columns = [(''Relative Year'', [Some 1]), (''FDI'', [Some 9])]\<rparr>)]
   = Inr \<lparr>index_name = None, index = [0, 1],
          columns = [(''Relative Year'', [Some 1, Some 2]),
                     (''FDI_AUS'', [Some 7, Some 8]),
                     (''FDI_CHI'', [Some 9, None])]\<rparr>
   \<and> load_and_merge_data
     [(''GDP'',
       \<lparr>index_name = None, index = range_index 3,
        columns = [(''Relative Year'', [Some (- 1), Some 0, Some 1]),
                   (''GDP'', [Some 30, Some 20, Some 10])]\<rparr>,
       \<lparr>index_name = None, index = range_index 2,
        columns = [(''Relative Year'', [Some 0, Some 1]), (''GDP'', [Some 3, Some 2])]\<rparr>),
      (''FDI'',
       \<lparr>index_name = None, index = range_index 2,
        columns = [(''Relative Year'', [Some 1, Some 2]), (''FDI'', [Some 7, Some 8])]\<rparr>,
       \<lparr>index_name = None, index = range_index 1,
        columns = [(''Relative Year'', [Some 1]), (''FDI'', [Some 9])]\<rparr>)]
   = Inr \<lparr>index_name = None, index = [0, 1, 2],
          columns = [(''Relative Year'', [Some (- 1), Some 0, Some 1]),
                     (''GDP_AUS'', [Some 30, Some 20, Some 10]),
                     (''GDP_CHI'', [None, Some 3, Some 2]),
                     (''FDI_AUS'', [None, None, Some 7]),
                     (''FDI_CHI'', [None, None, Some 9])]\<rparr>"
  by code_simp

section \<open>Properties of calculate_correlation\<close>

text \<open>The correlation of two columns does not depend on their order.\<close>

lemma complete_pairs_commute:
  "complete_pairs ys xs = map prod.swap (complete_pairs xs ys)"
proof -
  have "zip ys xs = map prod.swap (zip xs ys)"
    by (simp add: zip_commute[of ys xs] prod.swap_def case_prod_unfold)
  then show ?thesis
    by (auto simp: complete_pairs_def map_concat comp_def intro!: arg_cong[where f=concat]
             split: option.splits prod.splits)
qed

lemma covxy_swap: "covxy (map prod.swap ps) = covxy ps"
  by (simp add: covxy_def comp_def mult.commute)

lemma pearson_commute: "pearson xs ys = pearson ys xs"
  by (simp add: pearson_def Let_def complete_pairs_commute[of ys xs] covxy_swap comp_def mult.commute)

text \<open>A column against itself: 1, or missing when its values do not vary.\<close>

lemma complete_pairs_self: "p \<in> set (complete_pairs xs xs) \<Longrightarrow> snd p = fst p"
  by (auto simp: complete_pairs_def zip_same split: option.splits)

lemma covxy_self:
  assumes "\<forall>p\<in>set ps. snd p = fst p"
  shows "covxy ps = ssqdm (map fst ps)"
proof -
  have "map snd ps = map fst ps" using assms by simp
  then show ?thesis using assms by (simp add: covxy_def ssqdm_def comp_def cong: map_cong)
qed

lemma ssqdm_nonneg: "0 \<le> ssqdm vs"
  unfolding ssqdm_def by (rule sum_list_nonneg) auto

lemma pearson_self:
  "pearson xs xs = (if ssqdm (map fst (complete_pairs xs xs)) = 0 then None else Some 1)"
proof -
  let ?ps = "complete_pairs xs xs"
  let ?s = "ssqdm (map fst ?ps)"
  have same: "map snd ?ps = map fst ?ps" using complete_pairs_self[of _ xs] by simp
  have cov: "covxy ?ps = ?s" by (rule covxy_self) (simp add: complete_pairs_self)
  have root: "sqrt (?s * ?s) = ?s" using ssqdm_nonneg[of "map fst ?ps"] by simp
  have none: "?s = 0" if "length ?ps < 1"
  proof -
    from that have "?ps = []" by simp
    then show ?thesis by (simp add: ssqdm_def)
  qed
  have pos: "\<bar>?s\<bar> = ?s" using ssqdm_nonneg[of "map fst ?ps"] by simp
  show ?thesis
    using none by (auto simp: pearson_def Let_def same cov pos)
qed

lemma entries_corr:
  "i < length (columns sub) \<Longrightarrow> j < length (columns sub) \<Longrightarrow>
     entries (corr sub) ! i ! j = pearson (snd (columns sub ! i)) (snd (columns sub ! j))"
  by (simp add: corr_def)

lemma calculate_correlation_is_corr:
  "calculate_correlation df metrics time_period = Inr M \<Longrightarrow> \<exists>sub. M = corr sub"
  by (auto simp: calculate_correlation_def bind_def split: sum.splits)

text \<open>Selecting columns of a table whose column names are distinct.\<close>

lemma filter_name_distinct:
  "distinct (map fst cols) \<Longrightarrow> c \<in> set (map fst cols) \<Longrightarrow>
     \<exists>vs. filter (\<lambda>p. fst p = c) cols = [(c, vs)]"
proof (induction cols)
  case Nil
  then show ?case by simp
next
  case (Cons a cols)
  show ?case
  proof (cases "fst a = c")
    case True
    with Cons.prems(1) have "c \<notin> fst ` set cols" by auto
    then have "filter (\<lambda>p. fst p = c) cols = []" by (auto simp: filter_empty_conv)
    with True show ?thesis by (cases a) auto
  next
    case False
    with Cons show ?thesis by auto
  qed
qed

lemma get_column_distinct:
  assumes "distinct (column_names df)" "c \<in> set (column_names df)"
  shows "\<exists>vs. get_column df c = Inr vs \<and> filter (\<lambda>p. fst p = c) (columns df) = [(c, vs)]"
proof -
  from filter_name_distinct[of "columns df" c] assms obtain vs where
    "filter (\<lambda>p. fst p = c) (columns df) = [(c, vs)]"
    by (auto simp: column_names_def)
  then show ?thesis by (simp add: get_column_def columns_named_def)
qed

lemma select_columns_distinct:
  assumes d: "distinct (column_names t)" and s: "select_columns t metrics = Inr sub"
  shows "length (columns sub) = length metrics
       \<and> (\<forall>i<length metrics. \<exists>vs. get_column t (metrics ! i) = Inr vs
                                  \<and> columns sub ! i = (metrics ! i, vs))"
proof -
  from s have sub: "set metrics \<subseteq> set (column_names t)"
    and cols: "columns sub = concat (map (\<lambda>c. filter (\<lambda>p. fst p = c) (columns t)) metrics)"
    by (auto simp: select_columns_def split: if_splits)
  define h where "h c = hd (filter (\<lambda>p. fst p = c) (columns t))" for c
  have one: "filter (\<lambda>p. fst p = c) (columns t) = [h c] \<and> (\<exists>vs. get_column t c = Inr vs \<and> h c = (c, vs))"
    if "c \<in> set metrics" for c
  proof -
    from that sub have "c \<in> set (column_names t)" by blast
    from get_column_distinct[OF d this] obtain vs where
      "get_column t c = Inr vs" "filter (\<lambda>p. fst p = c) (columns t) = [(c, vs)]" by blast
    then show ?thesis by (simp add: h_def)
  qed
  have "map (\<lambda>c. filter (\<lambda>p. fst p = c) (columns t)) metrics = map (\<lambda>c. [h c]) metrics"
    using one by (intro map_cong) auto
  then have "columns sub = concat (map (\<lambda>c. [h c]) metrics)"
    by (simp only: cols)
  then have eq: "columns sub = map h metrics"
    by simp
  show ?thesis
  proof (intro conjI allI impI)
    show "length (columns sub) = length metrics" by (simp add: eq)
    fix i assume i: "i < length metrics"
    then have "metrics ! i \<in> set metrics" by simp
    from one[OF this] i show "\<exists>vs. get_column t (metrics ! i) = Inr vs
                                  \<and> columns sub ! i = (metrics ! i, vs)"
      by (auto simp: eq)
  qed
qed

lemma labels_corr_select:
  assumes "distinct (column_names t)" "select_columns t metrics = Inr sub"
  shows "labels (corr sub) = metrics"
proof -
  from select_columns_distinct[OF assms] have
    l: "length (columns sub) = length metrics" and
    c: "\<forall>i<length metrics. fst (columns sub ! i) = metrics ! i"
    by auto
  show ?thesis
    unfolding corr_def column_names_def using l c by (auto intro: nth_equalityI)
qed

text \<open>The matrix over the selected columns of a table whose column names are distinct.\<close>

lemma corr_select:
  assumes d: "distinct (column_names t)" and s: "select_columns t metrics = Inr sub"
  shows "labels (corr sub) = metrics
       \<and> length (entries (corr sub)) = length metrics
       \<and> (\<forall>i<length metrics. length (entries (corr sub) ! i) = length metrics)
       \<and> (\<forall>i j. i < length metrics \<and> j < length metrics \<longrightarrow>
             (\<exists>xs ys. get_column t (metrics ! i) = Inr xs \<and> get_column t (metrics ! j) = Inr ys
                     \<and> entries (corr sub) ! i ! j = pearson xs ys))"
proof -
  from select_columns_distinct[OF d s] have
    l: "length (columns sub) = length metrics" and
    c: "\<forall>i<length metrics. \<exists>vs. get_column t (metrics ! i) = Inr vs
                                  \<and> columns sub ! i = (metrics ! i, vs)"
    by auto
  have e: "\<exists>xs ys. get_column t (metrics ! i) = Inr xs \<and> get_column t (metrics ! j) = Inr ys
                     \<and> entries (corr sub) ! i ! j = pearson xs ys"
    if "i < length metrics" "j < length metrics" for i j
  proof -
    from c that obtain xs ys where
      "get_column t (metrics ! i) = Inr xs" "columns sub ! i = (metrics ! i, xs)"
      "get_column t (metrics ! j) = Inr ys" "columns sub ! j = (metrics ! j, ys)"
      by blast
    then show ?thesis using entries_corr[of i sub j] that l by auto
  qed
  have "length (entries (corr sub)) = length metrics" using l by (simp add: corr_def)
  moreover have "\<forall>i<length metrics. length (entries (corr sub) ! i) = length metrics"
    using l by (simp add: corr_def)
  ultimately show ?thesis using labels_corr_select[OF d s] e by blast
qed

lemma column_names_take_rows: "column_names (take_rows df ps) = column_names df"
  by (simp add: column_names_def take_rows_def comp_def)

lemma get_column_take_rows_Inr:
  assumes "get_column (take_rows df ps) c = Inr xs'"
  shows "\<exists>xs. get_column df c = Inr xs \<and> xs' = map (\<lambda>p. xs ! p) ps"
proof -
  from assms have "columns_named (take_rows df ps) c = [xs']"
    by (auto simp: get_column_def split: list.splits)
  then have "map (\<lambda>v. map (\<lambda>p. v ! p) ps) (columns_named df c) = [xs']"
    by (simp add: columns_named_take_rows)
  then obtain xs where "columns_named df c = [xs]" "xs' = map (\<lambda>p. xs ! p) ps"
    by (cases "columns_named df c") auto
  then show ?thesis by (simp add: get_column_def)
qed

text \<open>The rows of a window, read off a column directly.\<close>

lemma window_positions:
  assumes "length ry = n" "length xs = n"
  shows "map (\<lambda>p. xs ! p) (filter (\<lambda>p. map f ry ! p) [0..<n])
           = map snd (filter (\<lambda>p. f (fst p)) (zip ry xs))"
proof -
  have z: "zip ry xs = map (\<lambda>p. (ry ! p, xs ! p)) [0..<n]"
    using assms by (intro nth_equalityI) auto
  have "filter (\<lambda>p. map f ry ! p) [0..<n] = filter (\<lambda>p. f (ry ! p)) [0..<n]"
    using assms by (intro filter_cong) auto
  then show ?thesis by (simp add: z filter_map comp_def)
qed

lemma get_column_mem: "get_column df c = Inr xs \<Longrightarrow> (c, xs) \<in> set (columns df)"
proof -
  assume "get_column df c = Inr xs"
  then have "columns_named df c = [xs]" by (auto simp: get_column_def split: list.splits)
  then have "map snd (filter (\<lambda>p. fst p = c) (columns df)) = [xs]"
    by (simp add: columns_named_def)
  then obtain q where q: "filter (\<lambda>p. fst p = c) (columns df) = [q]" "snd q = xs"
    by (cases "filter (\<lambda>p. fst p = c) (columns df)") auto
  then have "q \<in> set (filter (\<lambda>p. fst p = c) (columns df))" by simp
  then have "q \<in> set (columns df)" "fst q = c" by auto
  with q(2) show ?thesis by (cases q) auto
qed

lemma select_columns_Inr:
  "set metrics \<subseteq> set (column_names t) \<Longrightarrow> \<exists>sub. select_columns t metrics = Inr sub"
  by (simp add: select_columns_def)

lemma calculate_correlation_window_steps:
  assumes "get_column df ''Relative Year'' = Inr ry"
  shows "calculate_correlation df metrics (Some (lo, hi))
           = bind (select_columns (take_rows df (filter (\<lambda>p. map (between lo hi) ry ! p) [0..<len df])) metrics)
                  (\<lambda>sub. Inr (corr sub))"
  using assms by (simp add: calculate_correlation_def window_of_def bind_def filter_rows_def)

lemma calculate_correlation_returns:
  assumes "get_column df ''Relative Year'' = Inr ry" "set metrics \<subseteq> set (column_names df)"
  shows "\<exists>M. calculate_correlation df metrics (Some (lo, hi)) = Inr M"
proof -
  let ?w = "take_rows df (filter (\<lambda>p. map (between lo hi) ry ! p) [0..<len df])"
  from assms(2) have "set metrics \<subseteq> set (column_names ?w)" by (simp add: column_names_take_rows)
  from select_columns_Inr[OF this] obtain sub where "select_columns ?w metrics = Inr sub" by blast
  then show ?thesis
    by (simp add: calculate_correlation_window_steps[OF assms(1)] bind_def)
qed

lemma between_window:
  "between lo hi c = (case c of None \<Rightarrow> False | Some r \<Rightarrow> lo \<le> r \<and> r \<le> hi)"
  by (simp add: between_def)

lemma calculate_correlation_window_entries:
  assumes wf: "\<forall>c\<in>set (columns df). length (snd c) = len df"
    and d: "distinct (column_names df)"
    and ry: "get_column df ''Relative Year'' = Inr ry"
    and m: "set metrics \<subseteq> set (column_names df)"
  shows "\<exists>M. calculate_correlation df metrics (Some (lo, hi)) = Inr M
           \<and> labels M = metrics
           \<and> length (entries M) = length metrics
           \<and> (\<forall>i<length metrics. length (entries M ! i) = length metrics)
           \<and> (\<forall>i j. i < length metrics \<and> j < length metrics \<longrightarrow>
                (\<exists>xs ys. get_column df (metrics ! i) = Inr xs
                       \<and> get_column df (metrics ! j) = Inr ys
                       \<and> entries M ! i ! j
                           = pearson (rows_in_window lo hi ry xs) (rows_in_window lo hi ry ys)))"
proof -
  define ps where "ps = filter (\<lambda>p. map (between lo hi) ry ! p) [0..<len df]"
  let ?w = "take_rows df ps"
  have dw: "distinct (column_names ?w)" using d by (simp add: column_names_take_rows)
  from m have "set metrics \<subseteq> set (column_names ?w)" by (simp add: column_names_take_rows)
  from select_columns_Inr[OF this] obtain sub where sub: "select_columns ?w metrics = Inr sub" by blast
  have run: "calculate_correlation df metrics (Some (lo, hi)) = Inr (corr sub)"
    using sub by (simp add: calculate_correlation_window_steps[OF ry] bind_def ps_def)
  have lry: "length ry = len df" using get_column_mem[OF ry] wf by auto
  have win: "map (\<lambda>p. xs ! p) ps = rows_in_window lo hi ry xs" if "get_column df c = Inr xs" for c xs
  proof -
    have "length xs = len df" using get_column_mem[OF that] wf by auto
    from window_positions[OF lry this, of "between lo hi"] show ?thesis
      by (simp add: ps_def rows_in_window_def between_window)
  qed
  note cs = corr_select[OF dw sub]
  have a: "labels (corr sub) = metrics" by (rule conjunct1[OF cs])
  have b: "length (entries (corr sub)) = length metrics"
    by (rule conjunct1[OF conjunct2[OF cs]])
  have c: "\<forall>i<length metrics. length (entries (corr sub) ! i) = length metrics"
    by (rule conjunct1[OF conjunct2[OF conjunct2[OF cs]]])
  have e: "\<forall>i j. i < length metrics \<and> j < length metrics \<longrightarrow>
             (\<exists>xs ys. get_column ?w (metrics ! i) = Inr xs \<and> get_column ?w (metrics ! j) = Inr ys
                     \<and> entries (corr sub) ! i ! j = pearson xs ys)"
    by (rule conjunct2[OF conjunct2[OF conjunct2[OF cs]]])
  have e': "\<exists>xs ys. get_column df (metrics ! i) = Inr xs
                       \<and> get_column df (metrics ! j) = Inr ys
                       \<and> entries (corr sub) ! i ! j
                           = pearson (rows_in_window lo hi ry xs) (rows_in_window lo hi ry ys)"
    if "i < length metrics" "j < length metrics" for i j
  proof -
    from e that have "\<exists>xs ys. get_column ?w (metrics ! i) = Inr xs \<and> get_column ?w (metrics ! j) = Inr ys
                     \<and> entries (corr sub) ! i ! j = pearson xs ys" by simp
    then obtain xs' ys' where
      x: "get_column ?w (metrics ! i) = Inr xs'" and y: "get_column ?w (metrics ! j) = Inr ys'" and
      p: "entries (corr sub) ! i ! j = pearson xs' ys'" by auto
    from get_column_take_rows_Inr[OF x] obtain xs where
      xs: "get_column df (metrics ! i) = Inr xs" "xs' = map (\<lambda>p. xs ! p) ps" by blast
    from get_column_take_rows_Inr[OF y] obtain ys where
      ys: "get_column df (metrics ! j) = Inr ys" "ys' = map (\<lambda>p. ys ! p) ps" by blast
    from p xs(2) ys(2) win[OF xs(1)] win[OF ys(1)]
    have "entries (corr sub) ! i ! j
            = pearson (rows_in_window lo hi ry xs) (rows_in_window lo hi ry ys)" by simp
    with xs(1) ys(1) show ?thesis by blast
  qed
  show ?thesis
  proof (intro exI[of _ "corr sub"] conjI)
    show "calculate_correlation df metrics (Some (lo, hi)) = Inr (corr sub)" by (rule run)
    show "labels (corr sub) = metrics" by (rule a)
    show "length (entries (corr sub)) = length metrics" by (rule b)
    show "\<forall>i<length metrics. length (entries (corr sub) ! i) = length metrics" by (rule c)
    show "\<forall>i j. i < length metrics \<and> j < length metrics \<longrightarrow>
                (\<exists>xs ys. get_column df (metrics ! i) = Inr xs
                       \<and> get_column df (metrics ! j) = Inr ys
                       \<and> entries (corr sub) ! i ! j
                           = pearson (rows_in_window lo hi ry xs) (rows_in_window lo hi ry ys))"
      using e' by blast
  qed
qed

lemma window_of_cases:
  "window_of df time_period = Inr w \<Longrightarrow> w = df \<or> (\<exists>ps. w = take_rows df ps)"
  by (auto simp: window_of_def bind_def filter_rows_def split: option.splits sum.splits)

lemma get_column_window:
  assumes "window_of df time_period = Inr w"
    and "get_column w a = Inr xs" "get_column w b = Inr ys"
    and "get_column df a = get_column df b"
  shows "xs = ys"
proof -
  from window_of_cases[OF assms(1)] show ?thesis
  proof
    assume "w = df"
    with assms show ?thesis by simp
  next
    assume "\<exists>ps. w = take_rows df ps"
    then obtain ps where w: "w = take_rows df ps" by blast
    from get_column_take_rows_Inr[of df ps a xs] assms(2) w obtain xs0 where
      "get_column df a = Inr xs0" "xs = map (\<lambda>p. xs0 ! p) ps" by blast
    moreover from get_column_take_rows_Inr[of df ps b ys] assms(3) w obtain ys0 where
      "get_column df b = Inr ys0" "ys = map (\<lambda>p. ys0 ! p) ps" by blast
    ultimately show ?thesis using assms(4) by simp
  qed
qed

lemma column_names_window:
  "window_of df time_period = Inr w \<Longrightarrow> column_names w = column_names df"
  by (auto dest!: window_of_cases simp: column_names_take_rows)

text \<open>
  The entry that \<open>corr\<close> computes from the deviations from the means is the
  product-moment coefficient.
\<close>

lemma complete_pairs_observed: "complete_pairs xs ys = observed_pairs xs ys"
proof -
  have "concat (map (\<lambda>p. case p of (Some x, Some y) \<Rightarrow> [(x, y)] | _ \<Rightarrow> []) zs)
          = map (\<lambda>p. (the (fst p), the (snd p)))
                (filter (\<lambda>p. fst p \<noteq> None \<and> snd p \<noteq> None) zs)"
    for zs :: "(cell \<times> cell) list"
    by (induction zs) (auto split: option.splits)
  then show ?thesis by (simp add: complete_pairs_def observed_pairs_def)
qed

lemma sum_squared_deviations:
  "(\<Sum>v\<leftarrow>vs. (v - a) * (v - a))
     = (\<Sum>v\<leftarrow>vs. v * v) - 2 * a * sum_list vs + real (length vs) * (a * a)"
  for a :: real
  by (induction vs) (simp_all add: algebra_simps)

lemma sum_product_deviations:
  "(\<Sum>p\<leftarrow>ps. (fst p - a) * (snd p - b))
     = (\<Sum>p\<leftarrow>ps. fst p * snd p) - b * (\<Sum>p\<leftarrow>ps. fst p) - a * (\<Sum>p\<leftarrow>ps. snd p)
       + real (length ps) * (a * b)"
  for a b :: real
  by (induction ps) (simp_all add: algebra_simps)

lemma ssqdm_sums:
  assumes "vs \<noteq> []"
  shows "real (length vs) * ssqdm vs = real (length vs) * (\<Sum>v\<leftarrow>vs. v * v) - sum_list vs * sum_list vs"
proof -
  define n where "n = real (length vs)"
  have n: "n \<noteq> 0" using assms by (simp add: n_def)
  have "ssqdm vs = (\<Sum>v\<leftarrow>vs. v * v) - 2 * (sum_list vs / n) * sum_list vs
                     + n * ((sum_list vs / n) * (sum_list vs / n))"
    unfolding ssqdm_def mean_def n_def by (rule sum_squared_deviations)
  then have "n * ssqdm vs = n * (\<Sum>v\<leftarrow>vs. v * v) - 2 * (sum_list vs * sum_list vs)
                     + sum_list vs * sum_list vs"
    using n by (simp add: field_simps)
  then show ?thesis by (simp add: n_def)
qed

lemma covxy_sums:
  assumes "ps \<noteq> []"
  shows "real (length ps) * covxy ps
           = real (length ps) * (\<Sum>p\<leftarrow>ps. fst p * snd p) - (\<Sum>p\<leftarrow>ps. fst p) * (\<Sum>p\<leftarrow>ps. snd p)"
proof -
  define n where "n = real (length ps)"
  define sx where "sx = (\<Sum>p\<leftarrow>ps. fst p)"
  define sy where "sy = (\<Sum>p\<leftarrow>ps. snd p)"
  define sxy where "sxy = (\<Sum>p\<leftarrow>ps. fst p * snd p)"
  have n: "n \<noteq> 0" using assms by (simp add: n_def)
  have "covxy ps = sxy - (sy / n) * sx - (sx / n) * sy + n * ((sx / n) * (sy / n))"
    unfolding covxy_def mean_def n_def sx_def sy_def sxy_def length_map
    by (rule sum_product_deviations)
  then have "n * covxy ps = n * (sxy - (sy / n) * sx - (sx / n) * sy + n * ((sx / n) * (sy / n)))"
    by (simp only:)
  also have "\<dots> = n * sxy - sx * sy"
    using n by (simp add: field_simps)
  finally show ?thesis by (simp add: n_def sx_def sy_def sxy_def)
qed

lemma pearson_is_coefficient: "pearson xs ys = pearson_coefficient xs ys"
proof (cases "observed_pairs xs ys = []")
  case True
  then show ?thesis
    by (simp add: pearson_def pearson_coefficient_def complete_pairs_observed)
next
  case False
  define ps where "ps = observed_pairs xs ys"
  define n where "n = real (length ps)"
  have ne: "ps \<noteq> []" using False by (simp add: ps_def)
  have n: "0 < n" using ne by (simp add: n_def)
  define sx where "sx = (\<Sum>p\<leftarrow>ps. fst p)"
  define sy where "sy = (\<Sum>p\<leftarrow>ps. snd p)"
  define sxx where "sxx = (\<Sum>p\<leftarrow>ps. fst p * fst p)"
  define syy where "syy = (\<Sum>p\<leftarrow>ps. snd p * snd p)"
  define sxy where "sxy = (\<Sum>p\<leftarrow>ps. fst p * snd p)"
  define qx where "qx = ssqdm (map fst ps)"
  define qy where "qy = ssqdm (map snd ps)"
  have qx0: "0 \<le> qx" and qy0: "0 \<le> qy" by (simp_all add: qx_def qy_def ssqdm_nonneg)
  have x: "n * qx = n * sxx - sx * sx"
    using ssqdm_sums[of "map fst ps"] ne by (simp add: n_def qx_def sxx_def sx_def comp_def)
  have y: "n * qy = n * syy - sy * sy"
    using ssqdm_sums[of "map snd ps"] ne by (simp add: n_def qy_def syy_def sy_def comp_def)
  have c: "n * covxy ps = n * sxy - sx * sy"
    using covxy_sums[OF ne] by (simp add: n_def sxy_def sx_def sy_def)
  have den: "sqrt (n * sxx - sx * sx) * sqrt (n * syy - sy * sy) = n * sqrt (qx * qy)"
  proof -
    have "sqrt (n * sxx - sx * sx) * sqrt (n * syy - sy * sy) = sqrt (n * qx) * sqrt (n * qy)"
      by (simp only: x y)
    also have "\<dots> = sqrt ((n * n) * (qx * qy))"
      by (simp add: real_sqrt_mult[symmetric] algebra_simps)
    also have "\<dots> = n * sqrt (qx * qy)"
      using n by (simp add: real_sqrt_mult)
    finally show ?thesis .
  qed
  have l: "pearson xs ys = (if sqrt (qx * qy) \<noteq> 0 then Some (covxy ps / sqrt (qx * qy)) else None)"
    using ne by (simp add: pearson_def complete_pairs_observed ps_def[symmetric] qx_def qy_def Let_def)
  have r: "pearson_coefficient xs ys
             = (if n * sqrt (qx * qy) = 0 then None
                else Some ((n * covxy ps) / (n * sqrt (qx * qy))))"
    unfolding pearson_coefficient_def Let_def ps_def[symmetric] n_def[symmetric] sx_def[symmetric]
      sy_def[symmetric] sxx_def[symmetric] syy_def[symmetric] sxy_def[symmetric]
    by (simp only: den c)
  show ?thesis using n by (simp add: l r)
qed

section \<open>Properties of compute_country_correlation_matrices\<close>

lemma map_of_dict_set: "map_of (dict_set g M d) g' = (if g' = g then Some M else map_of d g')"
  by (induction d) auto

lemma map_of_set_entry:
  "map_of (set_entry country g M ms) c
     = (if c = country then map_option (dict_set g M) (map_of ms c) else map_of ms c)"
  by (induction ms) (auto simp: set_entry_def)

lemma group_columns_of_subset:
  "set (group_columns_of md suffix metrics) \<subseteq> set (column_names md)"
  by (auto simp: group_columns_of_def)

text \<open>The loop over the groups: what it prints and what it stores for its country.\<close>

lemma group_loop_result:
  assumes ok: "\<And>cols. set cols \<subseteq> set (column_names md) \<Longrightarrow> 1 < length cols \<Longrightarrow>
                 \<exists>M. calculate_correlation md cols (Some (- 5, 5)) = Inr M"
  shows "distinct (map fst groups) \<Longrightarrow> map_of ms country = Some d0 \<Longrightarrow>
     \<exists>out' ms' d. group_loop md country suffix groups (out, ms) = Inr (out', ms')
       \<and> set out \<subseteq> set out'
       \<and> (\<forall>c. c \<noteq> country \<longrightarrow> map_of ms' c = map_of ms c)
       \<and> map_of ms' country = Some d
       \<and> (\<forall>g. g \<notin> fst ` set groups \<longrightarrow> map_of d g = map_of d0 g)
       \<and> (\<forall>g metrics. (g, metrics) \<in> set groups
              \<and> length (group_columns_of md suffix metrics) < 2 \<longrightarrow>
              not_enough g country \<in> set out' \<and> map_of d g = map_of d0 g)
       \<and> (\<forall>g metrics. (g, metrics) \<in> set groups
              \<and> \<not> length (group_columns_of md suffix metrics) < 2 \<longrightarrow>
              (\<exists>M. calculate_correlation md (group_columns_of md suffix metrics) (Some (- 5, 5)) = Inr M
                 \<and> map_of d g = Some M))"
proof (induction groups arbitrary: out ms d0)
  case Nil
  then show ?case by simp
next
  case (Cons a rest)
  obtain g1 m1 where a: "a = (g1, m1)" by (cases a)
  let ?cols = "group_columns_of md suffix m1"
  from Cons.prems(1) a have dr: "distinct (map fst rest)" and g1: "g1 \<notin> fst ` set rest" by auto
  show ?case
  proof (cases "length ?cols < 2")
    case True
    let ?out1 = "out @ [not_enough g1 country]"
    from Cons.IH[OF dr Cons.prems(2), of ?out1] obtain out' ms' d where
      r: "group_loop md country suffix rest (?out1, ms) = Inr (out', ms')" and
      o: "set ?out1 \<subseteq> set out'" and
      other: "\<forall>c. c \<noteq> country \<longrightarrow> map_of ms' c = map_of ms c" and
      d: "map_of ms' country = Some d" and
      keep: "\<forall>g. g \<notin> fst ` set rest \<longrightarrow> map_of d g = map_of d0 g" and
      few: "\<forall>g metrics. (g, metrics) \<in> set rest
              \<and> length (group_columns_of md suffix metrics) < 2 \<longrightarrow>
              not_enough g country \<in> set out' \<and> map_of d g = map_of d0 g" and
      many: "\<forall>g metrics. (g, metrics) \<in> set rest
              \<and> \<not> length (group_columns_of md suffix metrics) < 2 \<longrightarrow>
              (\<exists>M. calculate_correlation md (group_columns_of md suffix metrics) (Some (- 5, 5)) = Inr M
                 \<and> map_of d g = Some M)"
      by blast
    have run: "group_loop md country suffix (a # rest) (out, ms) = Inr (out', ms')"
      using True r by (simp add: a Let_def)
    have "set out \<subseteq> set out'" using o by auto
    moreover have "\<forall>g. g \<notin> fst ` set (a # rest) \<longrightarrow> map_of d g = map_of d0 g"
      using keep by auto
    moreover have "\<forall>g metrics. (g, metrics) \<in> set (a # rest)
              \<and> length (group_columns_of md suffix metrics) < 2 \<longrightarrow>
              not_enough g country \<in> set out' \<and> map_of d g = map_of d0 g"
      using few keep g1 o a by auto
    moreover have "\<forall>g metrics. (g, metrics) \<in> set (a # rest)
              \<and> \<not> length (group_columns_of md suffix metrics) < 2 \<longrightarrow>
              (\<exists>M. calculate_correlation md (group_columns_of md suffix metrics) (Some (- 5, 5)) = Inr M
                 \<and> map_of d g = Some M)"
      using many True a by auto
    ultimately show ?thesis using run other d by blast
  next
    case False
    from False have "1 < length ?cols" by simp
    from ok[OF group_columns_of_subset this]
    obtain M1 where M1: "calculate_correlation md ?cols (Some (- 5, 5)) = Inr M1" by blast
    let ?out1 = "out @ [Text (newline # g1 @ '' Correlation Matrix for '' @ country @ '':''), Frame M1]"
    let ?ms1 = "set_entry country g1 M1 ms"
    have d1: "map_of ?ms1 country = Some (dict_set g1 M1 d0)"
      using Cons.prems(2) by (simp add: map_of_set_entry)
    from Cons.IH[OF dr d1, of ?out1] obtain out' ms' d where
      r: "group_loop md country suffix rest (?out1, ?ms1) = Inr (out', ms')" and
      o: "set ?out1 \<subseteq> set out'" and
      other: "\<forall>c. c \<noteq> country \<longrightarrow> map_of ms' c = map_of ?ms1 c" and
      d: "map_of ms' country = Some d" and
      keep: "\<forall>g. g \<notin> fst ` set rest \<longrightarrow> map_of d g = map_of (dict_set g1 M1 d0) g" and
      few: "\<forall>g metrics. (g, metrics) \<in> set rest
              \<and> length (group_columns_of md suffix metrics) < 2 \<longrightarrow>
              not_enough g country \<in> set out' \<and> map_of d g = map_of (dict_set g1 M1 d0) g" and
      many: "\<forall>g metrics. (g, metrics) \<in> set rest
              \<and> \<not> length (group_columns_of md suffix metrics) < 2 \<longrightarrow>
              (\<exists>M. calculate_correlation md (group_columns_of md suffix metrics) (Some (- 5, 5)) = Inr M
                 \<and> map_of d g = Some M)"
      by blast
    have run: "group_loop md country suffix (a # rest) (out, ms) = Inr (out', ms')"
      using False r M1 by (simp add: a Let_def bind_def)
    have "set out \<subseteq> set out'" using o by auto
    moreover have "\<forall>c. c \<noteq> country \<longrightarrow> map_of ms' c = map_of ms c"
      using other by (simp add: map_of_set_entry)
    moreover have "\<forall>g. g \<notin> fst ` set (a # rest) \<longrightarrow> map_of d g = map_of d0 g"
      using keep a by (auto simp: map_of_dict_set)
    moreover have "\<forall>g metrics. (g, metrics) \<in> set (a # rest)
              \<and> length (group_columns_of md suffix metrics) < 2 \<longrightarrow>
              not_enough g country \<in> set out' \<and> map_of d g = map_of d0 g"
    proof (intro allI impI)
      fix g metrics
      assume h: "(g, metrics) \<in> set (a # rest) \<and> length (group_columns_of md suffix metrics) < 2"
      with False a have in_rest: "(g, metrics) \<in> set rest" by auto
      then have ne: "g \<noteq> g1" using g1 by force
      from few in_rest h
      have "not_enough g country \<in> set out' \<and> map_of d g = map_of (dict_set g1 M1 d0) g"
        by blast
      with ne show "not_enough g country \<in> set out' \<and> map_of d g = map_of d0 g"
        by (simp add: map_of_dict_set)
    qed
    moreover have "\<forall>g metrics. (g, metrics) \<in> set (a # rest)
              \<and> \<not> length (group_columns_of md suffix metrics) < 2 \<longrightarrow>
              (\<exists>M. calculate_correlation md (group_columns_of md suffix metrics) (Some (- 5, 5)) = Inr M
                 \<and> map_of d g = Some M)"
    proof (intro allI impI)
      fix g metrics
      assume h: "(g, metrics) \<in> set (a # rest) \<and> \<not> length (group_columns_of md suffix metrics) < 2"
      show "\<exists>M. calculate_correlation md (group_columns_of md suffix metrics) (Some (- 5, 5)) = Inr M
                 \<and> map_of d g = Some M"
      proof (cases "(g, metrics) = (g1, m1)")
        case True
        with keep g1 have "map_of d g = Some M1" by (simp add: map_of_dict_set)
        with True M1 show ?thesis by simp
      next
        case False
        with h a have "(g, metrics) \<in> set rest" by auto
        with many h show ?thesis by blast
      qed
    qed
    ultimately show ?thesis using run d by blast
  qed
qed

text \<open>The loop over the countries.\<close>

lemma country_loop_result:
  assumes ok: "\<And>cols. set cols \<subseteq> set (column_names md) \<Longrightarrow> 1 < length cols \<Longrightarrow>
                 \<exists>M. calculate_correlation md cols (Some (- 5, 5)) = Inr M"
    and dg: "distinct (map fst mg)"
  shows "distinct (map fst cs) \<Longrightarrow> \<forall>c\<in>fst ` set cs. map_of ms c = Some [] \<Longrightarrow>
     \<exists>out' ms'. country_loop md mg cs (out, ms) = Inr (out', ms')
       \<and> set out \<subseteq> set out'
       \<and> (\<forall>c. c \<notin> fst ` set cs \<longrightarrow> map_of ms' c = map_of ms c)
       \<and> (\<forall>c s g metrics. (c, s) \<in> set cs \<and> (g, metrics) \<in> set mg \<longrightarrow>
             (\<exists>d. map_of ms' c = Some d
                \<and> (length (group_columns_of md s metrics) < 2 \<longrightarrow>
                     not_enough g c \<in> set out' \<and> map_of d g = None)
                \<and> (\<not> length (group_columns_of md s metrics) < 2 \<longrightarrow>
                     (\<exists>M. calculate_correlation md (group_columns_of md s metrics) (Some (- 5, 5)) = Inr M
                        \<and> map_of d g = Some M))))"
proof (induction cs arbitrary: out ms)
  case Nil
  then show ?case by simp
next
  case (Cons a rest)
  obtain c1 s1 where a: "a = (c1, s1)" by (cases a)
  from Cons.prems(1) a have dr: "distinct (map fst rest)" and c1: "c1 \<notin> fst ` set rest" by auto
  from Cons.prems(2) a have e1: "map_of ms c1 = Some []" by simp
  let ?out1 = "out @ [Text (newline # ''Computing correlation matrices for '' @ c1 @ '':'')]"
  from group_loop_result[of md mg ms c1 "[]" s1 ?out1, OF ok dg e1] obtain out1 ms1 d1 where
    g: "group_loop md c1 s1 mg (?out1, ms) = Inr (out1, ms1)" and
    o1: "set ?out1 \<subseteq> set out1" and
    other1: "\<forall>c. c \<noteq> c1 \<longrightarrow> map_of ms1 c = map_of ms c" and
    d1: "map_of ms1 c1 = Some d1" and
    few1: "\<forall>g metrics. (g, metrics) \<in> set mg
              \<and> length (group_columns_of md s1 metrics) < 2 \<longrightarrow>
              not_enough g c1 \<in> set out1 \<and> map_of d1 g = map_of [] g" and
    many1: "\<forall>g metrics. (g, metrics) \<in> set mg
              \<and> \<not> length (group_columns_of md s1 metrics) < 2 \<longrightarrow>
              (\<exists>M. calculate_correlation md (group_columns_of md s1 metrics) (Some (- 5, 5)) = Inr M
                 \<and> map_of d1 g = Some M)"
    by blast
  have pre: "\<forall>c\<in>fst ` set rest. map_of ms1 c = Some []"
  proof
    fix c assume c: "c \<in> fst ` set rest"
    then have "c \<noteq> c1" using c1 by auto
    moreover from c Cons.prems(2) have "map_of ms c = Some []" by auto
    ultimately show "map_of ms1 c = Some []" using other1 by simp
  qed
  from Cons.IH[OF dr pre, of out1] obtain out' ms' where
    r: "country_loop md mg rest (out1, ms1) = Inr (out', ms')" and
    o: "set out1 \<subseteq> set out'" and
    other: "\<forall>c. c \<notin> fst ` set rest \<longrightarrow> map_of ms' c = map_of ms1 c" and
    res: "\<forall>c s g metrics. (c, s) \<in> set rest \<and> (g, metrics) \<in> set mg \<longrightarrow>
             (\<exists>d. map_of ms' c = Some d
                \<and> (length (group_columns_of md s metrics) < 2 \<longrightarrow>
                     not_enough g c \<in> set out' \<and> map_of d g = None)
                \<and> (\<not> length (group_columns_of md s metrics) < 2 \<longrightarrow>
                     (\<exists>M. calculate_correlation md (group_columns_of md s metrics) (Some (- 5, 5)) = Inr M
                        \<and> map_of d g = Some M)))"
    by blast
  have run: "country_loop md mg (a # rest) (out, ms) = Inr (out', ms')"
    using g r by (simp add: a bind_def)
  have sub: "set out \<subseteq> set out'" using o1 o by auto
  have keep: "\<forall>c. c \<notin> fst ` set (a # rest) \<longrightarrow> map_of ms' c = map_of ms c"
    using other other1 a by auto
  have first: "map_of ms' c1 = Some d1" using other c1 d1 by simp
  have all: "\<forall>c s g metrics. (c, s) \<in> set (a # rest) \<and> (g, metrics) \<in> set mg \<longrightarrow>
             (\<exists>d. map_of ms' c = Some d
                \<and> (length (group_columns_of md s metrics) < 2 \<longrightarrow>
                     not_enough g c \<in> set out' \<and> map_of d g = None)
                \<and> (\<not> length (group_columns_of md s metrics) < 2 \<longrightarrow>
                     (\<exists>M. calculate_correlation md (group_columns_of md s metrics) (Some (- 5, 5)) = Inr M
                        \<and> map_of d g = Some M)))"
  proof (intro allI impI)
    fix c s g metrics
    assume h: "(c, s) \<in> set (a # rest) \<and> (g, metrics) \<in> set mg"
    show "\<exists>d. map_of ms' c = Some d
                \<and> (length (group_columns_of md s metrics) < 2 \<longrightarrow>
                     not_enough g c \<in> set out' \<and> map_of d g = None)
                \<and> (\<not> length (group_columns_of md s metrics) < 2 \<longrightarrow>
                     (\<exists>M. calculate_correlation md (group_columns_of md s metrics) (Some (- 5, 5)) = Inr M
                        \<and> map_of d g = Some M))"
    proof (cases "(c, s) = (c1, s1)")
      case True
      have "length (group_columns_of md s1 metrics) < 2 \<longrightarrow>
              not_enough g c1 \<in> set out' \<and> map_of d1 g = None"
        using few1 h o by auto
      moreover have "\<not> length (group_columns_of md s1 metrics) < 2 \<longrightarrow>
              (\<exists>M. calculate_correlation md (group_columns_of md s1 metrics) (Some (- 5, 5)) = Inr M
                 \<and> map_of d1 g = Some M)"
        using many1 h by blast
      ultimately show ?thesis using True first by auto
    next
      case False
      with h a have "(c, s) \<in> set rest" by auto
      with res h show ?thesis by blast
    qed
  qed
  from run sub keep all show ?case by blast
qed

lemma map_of_empty_dicts:
  "c \<in> fst ` set cs \<Longrightarrow> map_of (map (\<lambda>p. (fst p, [])) cs) c = Some []"
  by (induction cs) auto

text \<open>Source line 259, read as: the metrics of the group that resolve, each with the suffix.\<close>

lemma group_columns_of_resolved:
  "group_columns_of md suffix metrics
     = map (\<lambda>metric. metric @ suffix) [metric \<leftarrow> metrics. metric @ suffix \<in> set (column_names md)]"
  by (simp add: group_columns_of_def filter_map comp_def)

text \<open>On a table with distinct column names the matrix is labelled by the columns asked for.\<close>

lemma calculate_correlation_labels:
  assumes "calculate_correlation md cols time_period = Inr M" "distinct (column_names md)"
  shows "labels M = cols"
proof -
  from assms(1) obtain w sub where
    w: "window_of md time_period = Inr w" and sub: "select_columns w cols = Inr sub" and
    M: "M = corr sub"
    by (auto simp: calculate_correlation_def bind_def split: sum.splits)
  from column_names_window[OF w] assms(2) have "distinct (column_names w)" by simp
  from labels_corr_select[OF this sub] M show ?thesis by simp
qed

text \<open>The whole run, with the resolved columns and the printed line written out.\<close>

lemma country_loop_resolved:
  assumes ok: "\<And>cols. set cols \<subseteq> set (column_names md) \<Longrightarrow> 1 < length cols \<Longrightarrow>
                 \<exists>M. calculate_correlation md cols (Some (- 5, 5)) = Inr M"
    and dg: "distinct (map fst mg)" and dc: "distinct (map fst cs)"
  shows "\<exists>out ms. compute_country_correlation_matrices md mg cs = Inr (out, ms)
       \<and> (\<forall>c s g metrics. (c, s) \<in> set cs \<and> (g, metrics) \<in> set mg \<longrightarrow>
             (\<exists>d. map_of ms c = Some d
                \<and> (length [metric \<leftarrow> metrics. metric @ s \<in> set (column_names md)] < 2 \<longrightarrow>
                     Text (''Not enough data for '' @ g @ '' metrics in '' @ c @ ''.'') \<in> set out
                     \<and> map_of d g = None)
                \<and> (\<not> length [metric \<leftarrow> metrics. metric @ s \<in> set (column_names md)] < 2 \<longrightarrow>
                     (\<exists>M. calculate_correlation md
                             (map (\<lambda>metric. metric @ s)
                                  [metric \<leftarrow> metrics. metric @ s \<in> set (column_names md)])
                             (Some (- 5, 5)) = Inr M
                        \<and> map_of d g = Some M))))"
proof -
  let ?ms0 = "map (\<lambda>p. (fst p, [])) cs :: (string \<times> (string \<times> matrix) list) list"
  have init: "\<forall>c\<in>fst ` set cs. map_of ?ms0 c = Some []"
    by (simp add: map_of_empty_dicts)
  from country_loop_result[of md mg cs ?ms0 "[]", OF ok dg dc init]
  obtain out ms where
    run: "country_loop md mg cs ([], ?ms0) = Inr (out, ms)" and
    res: "\<forall>c s g metrics. (c, s) \<in> set cs \<and> (g, metrics) \<in> set mg \<longrightarrow>
             (\<exists>d. map_of ms c = Some d
                \<and> (length (group_columns_of md s metrics) < 2 \<longrightarrow>
                     not_enough g c \<in> set out \<and> map_of d g = None)
                \<and> (\<not> length (group_columns_of md s metrics) < 2 \<longrightarrow>
                     (\<exists>M. calculate_correlation md (group_columns_of md s metrics) (Some (- 5, 5)) = Inr M
                        \<and> map_of d g = Some M)))"
    by blast
  have run': "compute_country_correlation_matrices md mg cs = Inr (out, ms)"
    using run by (simp add: compute_country_correlation_matrices_def)
  note res' = res[unfolded group_columns_of_resolved not_enough_def length_map]
  show ?thesis
    by (rule exI[of _ out], rule exI[of _ ms], rule conjI) (fact run' res')+
qed

text \<open>
  Claim C4. Let the merged table have its Relative Year column, or no column at all (the
  merged table of an empty dictionary), and let the two dictionaries have distinct keys,
  as dictionaries do. Then compute_country_correlation_matrices returns without an
  error, and for every country and every metric group: when fewer than 2 of the group's
  metrics have their column \<open>{metric}{suffix}\<close> among the columns of the merged table,
  the line \<open>Not enough data for {group} metrics in {country}.\<close> is printed and the
  country's dictionary has no entry for the group; otherwise the country's dictionary
  holds, under the group, the matrix that calculate_correlation returns for the columns
  \<open>{metric}{suffix}\<close> of the metrics that have one, over the window from -5 to 5, and on
  a table with distinct column names that matrix is labelled by exactly these columns.
\<close>

theorem groups_without_two_columns_are_skipped:
  assumes "(\<exists>ry. get_column merged_data ''Relative Year'' = Inr ry) \<or> columns merged_data = []"
    and "distinct (map fst metric_groups)"
    and "distinct (map fst country_suffix)"
  shows "\<exists>out ms.
           compute_country_correlation_matrices merged_data metric_groups country_suffix = Inr (out, ms)
         \<and> (\<forall>country suffix group_name metrics.
               (country, suffix) \<in> set country_suffix \<and> (group_name, metrics) \<in> set metric_groups \<longrightarrow>
               (\<exists>d. map_of ms country = Some d
                  \<and> (length [metric \<leftarrow> metrics. metric @ suffix \<in> set (column_names merged_data)] < 2 \<longrightarrow>
                       Text (''Not enough data for '' @ group_name @ '' metrics in '' @ country @ ''.'')
                         \<in> set out
                       \<and> map_of d group_name = None)
                  \<and> (\<not> length [metric \<leftarrow> metrics. metric @ suffix \<in> set (column_names merged_data)] < 2 \<longrightarrow>
                       (\<exists>M. calculate_correlation merged_data
                               (map (\<lambda>metric. metric @ suffix)
                                    [metric \<leftarrow> metrics. metric @ suffix \<in> set (column_names merged_data)])
                               (Some (- 5, 5)) = Inr M
                          \<and> map_of d group_name = Some M
                          \<and> (distinct (column_names merged_data) \<longrightarrow>
                               labels M = map (\<lambda>metric. metric @ suffix)
                                    [metric \<leftarrow> metrics. metric @ suffix \<in> set (column_names merged_data)])))))"
proof -
  have ok: "\<exists>M. calculate_correlation merged_data cols (Some (- 5, 5)) = Inr M"
    if sub: "set cols \<subseteq> set (column_names merged_data)" and many: "1 < length cols" for cols
  proof -
    from assms(1) show ?thesis
    proof
      assume "\<exists>ry. get_column merged_data ''Relative Year'' = Inr ry"
      then obtain ry where "get_column merged_data ''Relative Year'' = Inr ry" by blast
      from calculate_correlation_returns[OF this sub] show ?thesis .
    next
      assume "columns merged_data = []"
      with sub have "cols = []" by (simp add: column_names_def)
      with many show ?thesis by simp
    qed
  qed
  from country_loop_resolved[of merged_data metric_groups country_suffix, OF ok assms(2,3)]
  obtain out ms where
    run: "compute_country_correlation_matrices merged_data metric_groups country_suffix = Inr (out, ms)" and
    res: "\<forall>c s g metrics. (c, s) \<in> set country_suffix \<and> (g, metrics) \<in> set metric_groups \<longrightarrow>
             (\<exists>d. map_of ms c = Some d
                \<and> (length [metric \<leftarrow> metrics. metric @ s \<in> set (column_names merged_data)] < 2 \<longrightarrow>
                     Text (''Not enough data for '' @ g @ '' metrics in '' @ c @ ''.'') \<in> set out
                     \<and> map_of d g = None)
                \<and> (\<not> length [metric \<leftarrow> metrics. metric @ s \<in> set (column_names merged_data)] < 2 \<longrightarrow>
                     (\<exists>M. calculate_correlation merged_data
                             (map (\<lambda>metric. metric @ s)
                                  [metric \<leftarrow> metrics. metric @ s \<in> set (column_names merged_data)])
                             (Some (- 5, 5)) = Inr M
                        \<and> map_of d g = Some M)))"
    by blast
  have each: "\<exists>d. map_of ms country = Some d
                  \<and> (length [metric \<leftarrow> metrics. metric @ suffix \<in> set (column_names merged_data)] < 2 \<longrightarrow>
                       Text (''Not enough data for '' @ group_name @ '' metrics in '' @ country @ ''.'')
                         \<in> set out
                       \<and> map_of d group_name = None)
                  \<and> (\<not> length [metric \<leftarrow> metrics. metric @ suffix \<in> set (column_names merged_data)] < 2 \<longrightarrow>
                       (\<exists>M. calculate_correlation merged_data
                               (map (\<lambda>metric. metric @ suffix)
                                    [metric \<leftarrow> metrics. metric @ suffix \<in> set (column_names merged_data)])
                               (Some (- 5, 5)) = Inr M
                          \<and> map_of d group_name = Some M
                          \<and> (distinct (column_names merged_data) \<longrightarrow>
                               labels M = map (\<lambda>metric. metric @ suffix)
                                    [metric \<leftarrow> metrics. metric @ suffix \<in> set (column_names merged_data)])))"
    if a: "(country, suffix) \<in> set country_suffix \<and> (group_name, metrics) \<in> set metric_groups"
    for country suffix group_name metrics
  proof -
    define resolved where
      "resolved = map (\<lambda>metric. metric @ suffix)
                      [metric \<leftarrow> metrics. metric @ suffix \<in> set (column_names merged_data)]"
    define few where
      "few \<longleftrightarrow> length [metric \<leftarrow> metrics. metric @ suffix \<in> set (column_names merged_data)] < 2"
    define line where
      "line = Text (''Not enough data for '' @ group_name @ '' metrics in '' @ country @ ''.'')"
    from mp[OF spec[OF spec[OF spec[OF spec[OF res, of country], of suffix], of group_name], of metrics] a]
    obtain d where
      d: "map_of ms country = Some d" and
      f: "few \<longrightarrow> line \<in> set out \<and> map_of d group_name = None" and
      m: "\<not> few \<longrightarrow> (\<exists>M. calculate_correlation merged_data resolved (Some (- 5, 5)) = Inr M
                        \<and> map_of d group_name = Some M)"
      unfolding resolved_def few_def line_def by (elim exE conjE)
    have m': "\<not> few \<longrightarrow> (\<exists>M. calculate_correlation merged_data resolved (Some (- 5, 5)) = Inr M
                        \<and> map_of d group_name = Some M
                        \<and> (distinct (column_names merged_data) \<longrightarrow> labels M = resolved))"
    proof
      assume "\<not> few"
      with m obtain M where
        M: "calculate_correlation merged_data resolved (Some (- 5, 5)) = Inr M"
           "map_of d group_name = Some M" by blast
      have "distinct (column_names merged_data) \<longrightarrow> labels M = resolved"
        using calculate_correlation_labels[OF M(1)] by blast
      with M show "\<exists>M. calculate_correlation merged_data resolved (Some (- 5, 5)) = Inr M
                        \<and> map_of d group_name = Some M
                        \<and> (distinct (column_names merged_data) \<longrightarrow> labels M = resolved)"
        by blast
    qed
    have "\<exists>d. map_of ms country = Some d
             \<and> (few \<longrightarrow> line \<in> set out \<and> map_of d group_name = None)
             \<and> (\<not> few \<longrightarrow> (\<exists>M. calculate_correlation merged_data resolved (Some (- 5, 5)) = Inr M
                        \<and> map_of d group_name = Some M
                        \<and> (distinct (column_names merged_data) \<longrightarrow> labels M = resolved)))"
      by (rule exI[of _ d], intro conjI) (fact d f m')+
    then show ?thesis unfolding resolved_def few_def line_def .
  qed
  show ?thesis
  proof (rule exI[of _ out], rule exI[of _ ms], rule conjI)
    show "compute_country_correlation_matrices merged_data metric_groups country_suffix = Inr (out, ms)"
      by (rule run)
  next
    show "\<forall>country suffix group_name metrics.
               (country, suffix) \<in> set country_suffix \<and> (group_name, metrics) \<in> set metric_groups \<longrightarrow>
               (\<exists>d. map_of ms country = Some d
                  \<and> (length [metric \<leftarrow> metrics. metric @ suffix \<in> set (column_names merged_data)] < 2 \<longrightarrow>
                       Text (''Not enough data for '' @ group_name @ '' metrics in '' @ country @ ''.'')
                         \<in> set out
                       \<and> map_of d group_name = None)
                  \<and> (\<not> length [metric \<leftarrow> metrics. metric @ suffix \<in> set (column_names merged_data)] < 2 \<longrightarrow>
                       (\<exists>M. calculate_correlation merged_data
                               (map (\<lambda>metric. metric @ suffix)
                                    [metric \<leftarrow> metrics. metric @ suffix \<in> set (column_names merged_data)])
                               (Some (- 5, 5)) = Inr M
                          \<and> map_of d group_name = Some M
                          \<and> (distinct (column_names merged_data) \<longrightarrow>
                               labels M = map (\<lambda>metric. metric @ suffix)
                                    [metric \<leftarrow> metrics. metric @ suffix \<in> set (column_names merged_data)]))))"
      by (intro allI impI) (rule each)
  qed
qed

text \<open>
  The theorem at the scenario of the specification, with a second group beside it: the
  group Economic with the metrics GDP and FDI, the group Health with two metrics, the
  country AUS with the suffix \<open>_AUS\<close>, and a merged table that has \<open>GDP_AUS\<close>, no
  \<open>FDI_AUS\<close>, and both columns of Health. Economic is reported and has no entry; Health
  has its matrix.
\<close>

theorem groups_without_two_columns_are_skipped_witness:
  "get_column \<lparr>index_name = None, index = range_index 2,
               columns = [(''Relative Year'', [Some 0, Some 1]), (''GDP_AUS'', [Some 3, Some 2]),
                          (''Obesity_rate_AUS'', [Some 4, Some 6]),
                          (''Underweight_rate_AUS'', [Some 9, Some 8])]\<rparr>
     ''Relative Year'' = Inr [Some 0, Some 1]
   \<and> distinct (map fst [(''Economic'', [''GDP'', ''FDI'']),
                         (''Health'', [''Obesity_rate'', ''Underweight_rate''])])
   \<and> distinct (map fst [(''AUS'', ''_AUS'')])
   \<and> (\<exists>out ms d M.
         compute_country_correlation_matrices
           \<lparr>index_name = None, index = range_index 2,
            columns = [(''Relative Year'', [Some 0, Some 1]), (''GDP_AUS'', [Some 3, Some 2]),
                       (''Obesity_rate_AUS'', [Some 4, Some 6]),
                       (''Underweight_rate_AUS'', [Some 9, Some 8])]\<rparr>
           [(''Economic'', [''GDP'', ''FDI'']), (''Health'', [''Obesity_rate'', ''Underweight_rate''])]
           [(''AUS'', ''_AUS'')] = Inr (out, ms)
       \<and> Text ''Not enough data for Economic metrics in AUS.'' \<in> set out
       \<and> map_of ms ''AUS'' = Some d \<and> map_of d ''Economic'' = None
       \<and> map_of d ''Health'' = Some M
       \<and> labels M = [''Obesity_rate_AUS'', ''Underweight_rate_AUS''])"
proof -
  let ?md = "\<lparr>index_name = None, index = range_index 2,
               columns = [(''Relative Year'', [Some 0, Some 1]), (''GDP_AUS'', [Some 3, Some 2]),
                          (''Obesity_rate_AUS'', [Some 4, Some 6]),
                          (''Underweight_rate_AUS'', [Some 9, Some 8])]\<rparr>"
  let ?mg = "[(''Economic'', [''GDP'', ''FDI'']), (''Health'', [''Obesity_rate'', ''Underweight_rate''])]"
  let ?cs = "[(''AUS'', ''_AUS'')]"
  have h1: "get_column ?md ''Relative Year'' = Inr [Some 0, Some 1]" by code_simp
  then have h1': "(\<exists>ry. get_column ?md ''Relative Year'' = Inr ry) \<or> columns ?md = []" by blast
  have h2: "distinct (map fst ?mg)" by simp
  have h3: "distinct (map fst ?cs)" by simp
  have names: "column_names ?md
                 = [''Relative Year'', ''GDP_AUS'', ''Obesity_rate_AUS'', ''Underweight_rate_AUS'']"
    by (simp add: column_names_def)
  have dn: "distinct (column_names ?md)" unfolding names by simp
  have economic: "[metric \<leftarrow> [''GDP'', ''FDI'']. metric @ ''_AUS'' \<in> set (column_names ?md)] = [''GDP'']"
    unfolding names by simp
  have health: "[metric \<leftarrow> [''Obesity_rate'', ''Underweight_rate'']. metric @ ''_AUS'' \<in> set (column_names ?md)]
                  = [''Obesity_rate'', ''Underweight_rate'']"
    unfolding names by simp
  from groups_without_two_columns_are_skipped[OF h1' h2 h3] obtain out ms where
    run: "compute_country_correlation_matrices ?md ?mg ?cs = Inr (out, ms)" and
    res: "\<forall>country suffix group_name metrics.
               (country, suffix) \<in> set ?cs \<and> (group_name, metrics) \<in> set ?mg \<longrightarrow>
               (\<exists>d. map_of ms country = Some d
                  \<and> (length [metric \<leftarrow> metrics. metric @ suffix \<in> set (column_names ?md)] < 2 \<longrightarrow>
                       Text (''Not enough data for '' @ group_name @ '' metrics in '' @ country @ ''.'')
                         \<in> set out
                       \<and> map_of d group_name = None)
                  \<and> (\<not> length [metric \<leftarrow> metrics. metric @ suffix \<in> set (column_names ?md)] < 2 \<longrightarrow>
                       (\<exists>M. calculate_correlation ?md
                               (map (\<lambda>metric. metric @ suffix)
                                    [metric \<leftarrow> metrics. metric @ suffix \<in> set (column_names ?md)])
                               (Some (- 5, 5)) = Inr M
                          \<and> map_of d group_name = Some M
                          \<and> (distinct (column_names ?md) \<longrightarrow>
                               labels M = map (\<lambda>metric. metric @ suffix)
                                    [metric \<leftarrow> metrics. metric @ suffix \<in> set (column_names ?md)]))))"
    by (elim exE conjE)
  have in1: "(''AUS'', ''_AUS'') \<in> set ?cs \<and> (''Economic'', [''GDP'', ''FDI'']) \<in> set ?mg" by simp
  have in2: "(''AUS'', ''_AUS'') \<in> set ?cs \<and> (''Health'', [''Obesity_rate'', ''Underweight_rate'']) \<in> set ?mg"
    by simp
  from mp[OF spec[OF spec[OF spec[OF spec[OF res, of "''AUS''"], of "''_AUS''"], of "''Economic''"],
            of "[''GDP'', ''FDI'']"] in1]
  obtain d where
    d: "map_of ms ''AUS'' = Some d" and
    line: "Text ''Not enough data for Economic metrics in AUS.'' \<in> set out" and
    none: "map_of d ''Economic'' = None"
    unfolding economic by auto
  from mp[OF spec[OF spec[OF spec[OF spec[OF res, of "''AUS''"], of "''_AUS''"], of "''Health''"],
            of "[''Obesity_rate'', ''Underweight_rate'']"] in2]
  obtain d' M where
    d': "map_of ms ''AUS'' = Some d'" and
    M: "map_of d' ''Health'' = Some M" and
    lab: "labels M = [''Obesity_rate_AUS'', ''Underweight_rate_AUS'']"
    unfolding health using dn by auto
  from d d' have "d' = d" by simp
  with M have M': "map_of d ''Health'' = Some M" by simp
  have "\<exists>out ms d M.
         compute_country_correlation_matrices ?md ?mg ?cs = Inr (out, ms)
       \<and> Text ''Not enough data for Economic metrics in AUS.'' \<in> set out
       \<and> map_of ms ''AUS'' = Some d \<and> map_of d ''Economic'' = None
       \<and> map_of d ''Health'' = Some M
       \<and> labels M = [''Obesity_rate_AUS'', ''Underweight_rate_AUS'']"
    by (rule exI[of _ out], rule exI[of _ ms], rule exI[of _ d], rule exI[of _ M], intro conjI)
       (fact run line d none M' lab)+
  with h1 h2 h3 show ?thesis by (intro conjI)
qed

text \<open>
  Claim C5. On a table whose columns are as long as the table and carry distinct names,
  and that has the Relative Year column and the metric columns, calculate_correlation
  with the window \<open>(lo, hi)\<close> returns the matrix labelled by the metric columns, in
  their order, whose entry for two of them is the Pearson product-moment coefficient of
  their cells in exactly the rows with \<open>lo \<le> Relative Year \<le> hi\<close>. And for every
  country and every group of which at least 2 metrics have their column
  \<open>{metric}{suffix}\<close> in the merged table, compute_country_correlation_matrices stores
  the matrix that calculate_correlation returns for these columns and the window from
  -5 to 5.
\<close>

theorem correlation_over_window:
  "((\<forall>c\<in>set (columns df). length (snd c) = len df) \<and> distinct (column_names df)
      \<and> get_column df ''Relative Year'' = Inr ry \<and> set metrics \<subseteq> set (column_names df) \<longrightarrow>
      (\<exists>M. calculate_correlation df metrics (Some (lo, hi)) = Inr M
         \<and> labels M = metrics
         \<and> length (entries M) = length metrics
         \<and> (\<forall>i<length metrics. length (entries M ! i) = length metrics)
         \<and> (\<forall>i j. i < length metrics \<and> j < length metrics \<longrightarrow>
               (\<exists>xs ys. get_column df (metrics ! i) = Inr xs
                      \<and> get_column df (metrics ! j) = Inr ys
                      \<and> entries M ! i ! j
                          = pearson_coefficient (rows_in_window lo hi ry xs)
                                                (rows_in_window lo hi ry ys)))))
   \<and> (get_column merged_data ''Relative Year'' = Inr ry'
        \<and> distinct (map fst metric_groups) \<and> distinct (map fst country_suffix) \<longrightarrow>
      (\<exists>out ms.
          compute_country_correlation_matrices merged_data metric_groups country_suffix = Inr (out, ms)
        \<and> (\<forall>country suffix group_name metrics.
              (country, suffix) \<in> set country_suffix \<and> (group_name, metrics) \<in> set metric_groups
              \<and> 2 \<le> length [metric \<leftarrow> metrics. metric @ suffix \<in> set (column_names merged_data)] \<longrightarrow>
              (\<exists>d M. map_of ms country = Some d \<and> map_of d group_name = Some M
                 \<and> calculate_correlation merged_data
                      (map (\<lambda>metric. metric @ suffix)
                           [metric \<leftarrow> metrics. metric @ suffix \<in> set (column_names merged_data)])
                      (Some (- 5, 5)) = Inr M))))"
proof (intro conjI impI)
  assume h: "(\<forall>c\<in>set (columns df). length (snd c) = len df) \<and> distinct (column_names df)
      \<and> get_column df ''Relative Year'' = Inr ry \<and> set metrics \<subseteq> set (column_names df)"
  then have wf: "\<forall>c\<in>set (columns df). length (snd c) = len df"
    and d: "distinct (column_names df)"
    and r: "get_column df ''Relative Year'' = Inr ry"
    and m: "set metrics \<subseteq> set (column_names df)" by simp_all
  show "\<exists>M. calculate_correlation df metrics (Some (lo, hi)) = Inr M
         \<and> labels M = metrics
         \<and> length (entries M) = length metrics
         \<and> (\<forall>i<length metrics. length (entries M ! i) = length metrics)
         \<and> (\<forall>i j. i < length metrics \<and> j < length metrics \<longrightarrow>
               (\<exists>xs ys. get_column df (metrics ! i) = Inr xs
                      \<and> get_column df (metrics ! j) = Inr ys
                      \<and> entries M ! i ! j
                          = pearson_coefficient (rows_in_window lo hi ry xs)
                                                (rows_in_window lo hi ry ys)))"
    by (rule calculate_correlation_window_entries[OF wf d r m, unfolded pearson_is_coefficient])
next
  assume h: "get_column merged_data ''Relative Year'' = Inr ry'
        \<and> distinct (map fst metric_groups) \<and> distinct (map fst country_suffix)"
  then have r: "get_column merged_data ''Relative Year'' = Inr ry'"
    and dg: "distinct (map fst metric_groups)" and dc: "distinct (map fst country_suffix)"
    by simp_all
  have ok: "\<exists>M. calculate_correlation merged_data cols (Some (- 5, 5)) = Inr M"
    if "set cols \<subseteq> set (column_names merged_data)" "1 < length cols" for cols
    by (rule calculate_correlation_returns[OF r that(1)])
  from country_loop_resolved[of merged_data metric_groups country_suffix, OF ok dg dc]
  obtain out ms where
    run: "compute_country_correlation_matrices merged_data metric_groups country_suffix = Inr (out, ms)" and
    res: "\<forall>c s g metrics. (c, s) \<in> set country_suffix \<and> (g, metrics) \<in> set metric_groups \<longrightarrow>
             (\<exists>d. map_of ms c = Some d
                \<and> (length [metric \<leftarrow> metrics. metric @ s \<in> set (column_names merged_data)] < 2 \<longrightarrow>
                     Text (''Not enough data for '' @ g @ '' metrics in '' @ c @ ''.'') \<in> set out
                     \<and> map_of d g = None)
                \<and> (\<not> length [metric \<leftarrow> metrics. metric @ s \<in> set (column_names merged_data)] < 2 \<longrightarrow>
                     (\<exists>M. calculate_correlation merged_data
                             (map (\<lambda>metric. metric @ s)
                                  [metric \<leftarrow> metrics. metric @ s \<in> set (column_names merged_data)])
                             (Some (- 5, 5)) = Inr M
                        \<and> map_of d g = Some M)))"
    by blast
  have each: "\<exists>d M. map_of ms country = Some d \<and> map_of d group_name = Some M
                 \<and> calculate_correlation merged_data
                      (map (\<lambda>metric. metric @ suffix)
                           [metric \<leftarrow> metrics. metric @ suffix \<in> set (column_names merged_data)])
                      (Some (- 5, 5)) = Inr M"
    if a: "(country, suffix) \<in> set country_suffix \<and> (group_name, metrics) \<in> set metric_groups
              \<and> 2 \<le> length [metric \<leftarrow> metrics. metric @ suffix \<in> set (column_names merged_data)]"
    for country suffix group_name metrics
  proof -
    define resolved where
      "resolved = map (\<lambda>metric. metric @ suffix)
                      [metric \<leftarrow> metrics. metric @ suffix \<in> set (column_names merged_data)]"
    define few where
      "few \<longleftrightarrow> length [metric \<leftarrow> metrics. metric @ suffix \<in> set (column_names merged_data)] < 2"
    from a have nf: "\<not> few" and a': "(country, suffix) \<in> set country_suffix \<and> (group_name, metrics) \<in> set metric_groups"
      by (simp_all add: few_def)
    from mp[OF spec[OF spec[OF spec[OF spec[OF res, of country], of suffix], of group_name], of metrics] a']
    obtain d where
      d: "map_of ms country = Some d" and
      m: "\<not> few \<longrightarrow> (\<exists>M. calculate_correlation merged_data resolved (Some (- 5, 5)) = Inr M
                        \<and> map_of d group_name = Some M)"
      unfolding resolved_def few_def by (elim exE conjE)
    from m nf obtain M where
      M: "calculate_correlation merged_data resolved (Some (- 5, 5)) = Inr M"
         "map_of d group_name = Some M" by blast
    have "\<exists>d M. map_of ms country = Some d \<and> map_of d group_name = Some M
                 \<and> calculate_correlation merged_data resolved (Some (- 5, 5)) = Inr M"
      by (rule exI[of _ d], rule exI[of _ M], intro conjI) (fact d M)+
    then show ?thesis unfolding resolved_def .
  qed
  show "\<exists>out ms.
          compute_country_correlation_matrices merged_data metric_groups country_suffix = Inr (out, ms)
        \<and> (\<forall>country suffix group_name metrics.
              (country, suffix) \<in> set country_suffix \<and> (group_name, metrics) \<in> set metric_groups
              \<and> 2 \<le> length [metric \<leftarrow> metrics. metric @ suffix \<in> set (column_names merged_data)] \<longrightarrow>
              (\<exists>d M. map_of ms country = Some d \<and> map_of d group_name = Some M
                 \<and> calculate_correlation merged_data
                      (map (\<lambda>metric. metric @ suffix)
                           [metric \<leftarrow> metrics. metric @ suffix \<in> set (column_names merged_data)])
                      (Some (- 5, 5)) = Inr M))"
  proof (rule exI[of _ out], rule exI[of _ ms], rule conjI)
    show "compute_country_correlation_matrices merged_data metric_groups country_suffix = Inr (out, ms)"
      by (rule run)
  next
    show "\<forall>country suffix group_name metrics.
              (country, suffix) \<in> set country_suffix \<and> (group_name, metrics) \<in> set metric_groups
              \<and> 2 \<le> length [metric \<leftarrow> metrics. metric @ suffix \<in> set (column_names merged_data)] \<longrightarrow>
              (\<exists>d M. map_of ms country = Some d \<and> map_of d group_name = Some M
                 \<and> calculate_correlation merged_data
                      (map (\<lambda>metric. metric @ suffix)
                           [metric \<leftarrow> metrics. metric @ suffix \<in> set (column_names merged_data)])
                      (Some (- 5, 5)) = Inr M)"
      by (intro allI impI) (rule each)
  qed
qed

text \<open>
  The theorem at a table of four rows, the first of them outside the window: the entry
  for A and B is the coefficient of the three rows that are left, 1/2, and it is the
  matrix stored for the group of A and B.
\<close>

theorem correlation_over_window_witness:
  "list_all (\<lambda>c. length (snd c) = len \<lparr>index_name = None, index = range_index 4,
        columns = [(''Relative Year'', [Some (- 6), Some (- 1), Some 0, Some 1]),
                   (''A'', [Some 5, Some 1, Some 2, Some 3]),
                   (''B'', [Some 9, Some 1, Some 3, Some 2])]\<rparr>)
     (columns \<lparr>index_name = None, index = range_index 4,
        columns = [(''Relative Year'', [Some (- 6), Some (- 1), Some 0, Some 1]),
                   (''A'', [Some 5, Some 1, Some 2, Some 3]),
                   (''B'', [Some 9, Some 1, Some 3, Some 2])]\<rparr>)
   \<and> distinct (column_names \<lparr>index_name = None, index = range_index 4,
        columns = [(''Relative Year'', [Some (- 6), Some (- 1), Some 0, Some 1]),
                   (''A'', [Some 5, Some 1, Some 2, Some 3]),
                   (''B'', [Some 9, Some 1, Some 3, Some 2])]\<rparr>)
   \<and> get_column \<lparr>index_name = None, index = range_index 4,
        columns = [(''Relative Year'', [Some (- 6), Some (- 1), Some 0, Some 1]),
                   (''A'', [Some 5, Some 1, Some 2, Some 3]),
                   (''B'', [Some 9, Some 1, Some 3, Some 2])]\<rparr>
         ''Relative Year'' = Inr [Some (- 6), Some (- 1), Some 0, Some 1]
   \<and> (\<exists>M. calculate_correlation \<lparr>index_name = None, index = range_index 4,
        columns = [(''Relative Year'', [Some (- 6), Some (- 1), Some 0, Some 1]),
                   (''A'', [Some 5, Some 1, Some 2, Some 3]),
                   (''B'', [Some 9, Some 1, Some 3, Some 2])]\<rparr>
         [''A'', ''B''] (Some (- 5, 5)) = Inr M
       \<and> labels M = [''A'', ''B'']
       \<and> entries M ! 0 ! 1 = pearson_coefficient [Some 1, Some 2, Some 3] [Some 1, Some 3, Some 2]
       \<and> entries M ! 0 ! 1 = Some (1 / 2)
       \<and> (\<exists>out ms d. compute_country_correlation_matrices
             \<lparr>index_name = None, index = range_index 4,
              columns = [(''Relative Year'', [Some (- 6), Some (- 1), Some 0, Some 1]),
                         (''A'', [Some 5, Some 1, Some 2, Some 3]),
                         (''B'', [Some 9, Some 1, Some 3, Some 2])]\<rparr>
             [(''Letters'', [''A'', ''B''])] [(''Plain'', [])] = Inr (out, ms)
           \<and> map_of ms ''Plain'' = Some d \<and> map_of d ''Letters'' = Some M))"
proof -
  let ?df = "\<lparr>index_name = None, index = range_index 4,
        columns = [(''Relative Year'', [Some (- 6), Some (- 1), Some 0, Some 1]),
                   (''A'', [Some 5, Some 1, Some 2, Some 3]),
                   (''B'', [Some 9, Some 1, Some 3, Some 2])]\<rparr>"
  let ?ry = "[Some (- 6), Some (- 1), Some 0, Some 1] :: cell list"
  let ?mg = "[(''Letters'', [''A'', ''B''])]"
  let ?cs = "[(''Plain'', [])] :: (string \<times> string) list"
  have h1: "\<forall>c\<in>set (columns ?df). length (snd c) = len ?df"
    by (simp add: len_def range_index_def)
  have names: "column_names ?df = [''Relative Year'', ''A'', ''B'']" by (simp add: column_names_def)
  have h2: "distinct (column_names ?df)" unfolding names by simp
  have h3: "get_column ?df ''Relative Year'' = Inr ?ry" by code_simp
  have h4: "set [''A'', ''B''] \<subseteq> set (column_names ?df)" unfolding names by simp
  have h5: "distinct (map fst ?mg)" by simp
  have h6: "distinct (map fst ?cs)" by simp
  note t = correlation_over_window[of ?df ?ry "[''A'', ''B'']" "- 5" 5 ?df ?ry ?mg ?cs]
  from mp[OF conjunct1[OF t] conjI[OF h1 conjI[OF h2 conjI[OF h3 h4]]]] obtain M where
    run: "calculate_correlation ?df [''A'', ''B''] (Some (- 5, 5)) = Inr M" and
    lab: "labels M = [''A'', ''B'']" and
    ent: "\<forall>i j. i < length [''A'', ''B''] \<and> j < length [''A'', ''B''] \<longrightarrow>
               (\<exists>xs ys. get_column ?df ([''A'', ''B''] ! i) = Inr xs
                      \<and> get_column ?df ([''A'', ''B''] ! j) = Inr ys
                      \<and> entries M ! i ! j
                          = pearson_coefficient (rows_in_window (- 5) 5 ?ry xs)
                                                (rows_in_window (- 5) 5 ?ry ys))"
    by (elim exE conjE)
  have "(0::nat) < length [''A'', ''B''] \<and> (1::nat) < length [''A'', ''B'']" by simp
  from mp[OF spec[OF spec[OF ent, of 0], of 1] this] obtain xs ys where
    x: "get_column ?df ([''A'', ''B''] ! 0) = Inr xs" and
    y: "get_column ?df ([''A'', ''B''] ! 1) = Inr ys" and
    e: "entries M ! 0 ! 1 = pearson_coefficient (rows_in_window (- 5) 5 ?ry xs)
                                                 (rows_in_window (- 5) 5 ?ry ys)"
    by (elim exE conjE)
  have "get_column ?df ''A'' = Inr [Some 5, Some 1, Some 2, Some 3]" by code_simp
  with x have xs: "xs = [Some 5, Some 1, Some 2, Some 3]" by simp
  have "get_column ?df ''B'' = Inr [Some 9, Some 1, Some 3, Some 2]" by code_simp
  with y have ys: "ys = [Some 9, Some 1, Some 3, Some 2]" by simp
  have wx: "rows_in_window (- 5) 5 ?ry [Some 5, Some 1, Some 2, Some 3] = [Some 1, Some 2, Some 3]"
    by (simp add: rows_in_window_def)
  have wy: "rows_in_window (- 5) 5 ?ry [Some 9, Some 1, Some 3, Some 2] = [Some 1, Some 3, Some 2]"
    by (simp add: rows_in_window_def)
  have e1: "entries M ! 0 ! 1 = pearson_coefficient [Some 1, Some 2, Some 3] [Some 1, Some 3, Some 2]"
    using e by (simp only: xs ys wx wy)
  have "pearson_coefficient [Some 1, Some 2, Some 3] [Some 1, Some 3, Some 2] = Some (1 / 2)"
    by (simp add: pearson_coefficient_def observed_pairs_def)
  with e1 have e2: "entries M ! 0 ! 1 = Some (1 / 2)" by simp
  from mp[OF conjunct2[OF t] conjI[OF h3 conjI[OF h5 h6]]] obtain out ms where
    run2: "compute_country_correlation_matrices ?df ?mg ?cs = Inr (out, ms)" and
    res: "\<forall>country suffix group_name metrics.
              (country, suffix) \<in> set ?cs \<and> (group_name, metrics) \<in> set ?mg
              \<and> 2 \<le> length [metric \<leftarrow> metrics. metric @ suffix \<in> set (column_names ?df)] \<longrightarrow>
              (\<exists>d M. map_of ms country = Some d \<and> map_of d group_name = Some M
                 \<and> calculate_correlation ?df
                      (map (\<lambda>metric. metric @ suffix)
                           [metric \<leftarrow> metrics. metric @ suffix \<in> set (column_names ?df)])
                      (Some (- 5, 5)) = Inr M)"
    by (elim exE conjE)
  have letters: "[metric \<leftarrow> [''A'', ''B'']. metric @ [] \<in> set (column_names ?df)] = [''A'', ''B'']"
    unfolding names by simp
  have in1: "(''Plain'', []) \<in> set ?cs \<and> (''Letters'', [''A'', ''B'']) \<in> set ?mg
              \<and> 2 \<le> length [metric \<leftarrow> [''A'', ''B'']. metric @ [] \<in> set (column_names ?df)]"
    unfolding letters by simp
  from mp[OF spec[OF spec[OF spec[OF spec[OF res, of "''Plain''"], of "[]"], of "''Letters''"],
            of "[''A'', ''B'']"] in1]
  obtain d M' where
    d: "map_of ms ''Plain'' = Some d" and M': "map_of d ''Letters'' = Some M'" and
    c: "calculate_correlation ?df [''A'', ''B''] (Some (- 5, 5)) = Inr M'"
    unfolding letters by auto
  from c run have "M' = M" by simp
  with M' have stored: "map_of d ''Letters'' = Some M" by simp
  have second: "\<exists>out ms d. compute_country_correlation_matrices ?df ?mg ?cs = Inr (out, ms)
           \<and> map_of ms ''Plain'' = Some d \<and> map_of d ''Letters'' = Some M"
    by (rule exI[of _ out], rule exI[of _ ms], rule exI[of _ d], intro conjI) (fact run2 d stored)+
  have first: "\<exists>M. calculate_correlation ?df [''A'', ''B''] (Some (- 5, 5)) = Inr M
       \<and> labels M = [''A'', ''B'']
       \<and> entries M ! 0 ! 1 = pearson_coefficient [Some 1, Some 2, Some 3] [Some 1, Some 3, Some 2]
       \<and> entries M ! 0 ! 1 = Some (1 / 2)
       \<and> (\<exists>out ms d. compute_country_correlation_matrices ?df ?mg ?cs = Inr (out, ms)
           \<and> map_of ms ''Plain'' = Some d \<and> map_of d ''Letters'' = Some M)"
    by (rule exI[of _ M], intro conjI) (fact run lab e1 e2 second)+
  have h1': "list_all (\<lambda>c. length (snd c) = len ?df) (columns ?df)"
    using h1 by (simp only: list_all_iff)
  show ?thesis
    by (intro conjI) (fact h1' h2 h3 first)+
qed

text \<open>
  Claim C6. Every matrix that calculate_correlation returns is the correlation matrix of
  the selected columns of the windowed table. It is square and symmetric. A diagonal
  entry is 1, or the missing marker when the column's values in the rows used do not vary
  (their squared deviations from the mean sum to 0, which includes a column without a
  value there); no error arises. Two columns that hold the same cells have, as their
  correlation, the diagonal entry of the first: 1 unless the values do not vary.
  (Over the reals; the rounding of floating point is not modelled.)
\<close>

theorem correlation_matrix_symmetric_unit_diagonal:
  assumes "calculate_correlation df metrics time_period = Inr M"
  shows "\<exists>windowed sub.
           window_of df time_period = Inr windowed
         \<and> select_columns windowed metrics = Inr sub
         \<and> M = corr sub
         \<and> length (entries M) = length (columns sub)
         \<and> (\<forall>i<length (columns sub). length (entries M ! i) = length (columns sub))
         \<and> (\<forall>i j. i < length (columns sub) \<and> j < length (columns sub) \<longrightarrow>
               entries M ! i ! j = entries M ! j ! i)
         \<and> (\<forall>i. i < length (columns sub) \<longrightarrow>
               entries M ! i ! i
                 = (if ssqdm (values_of (snd (columns sub ! i))) = 0 then None else Some 1))
         \<and> (\<forall>i j. i < length (columns sub) \<and> j < length (columns sub)
                 \<and> snd (columns sub ! i) = snd (columns sub ! j) \<longrightarrow>
               entries M ! i ! j = entries M ! i ! i)
         \<and> (distinct (column_names df) \<longrightarrow>
               labels M = metrics \<and> length (columns sub) = length metrics
             \<and> (\<forall>i j. i < length metrics \<and> j < length metrics
                     \<and> get_column df (metrics ! i) = get_column df (metrics ! j) \<longrightarrow>
                   entries M ! i ! j = entries M ! i ! i))"
proof -
  from assms obtain w sub where
    w: "window_of df time_period = Inr w" and
    s: "select_columns w metrics = Inr sub" and
    M: "M = corr sub"
    by (auto simp: calculate_correlation_def bind_Inr_iff)
  let ?k = "length (columns sub)"
  have l1: "length (entries M) = ?k" by (simp add: M corr_def)
  have l2: "\<forall>i<?k. length (entries M ! i) = ?k" by (simp add: M corr_def)
  have sym: "\<forall>i j. i < ?k \<and> j < ?k \<longrightarrow> entries M ! i ! j = entries M ! j ! i"
    by (simp add: M entries_corr pearson_commute)
  have diag: "\<forall>i. i < ?k \<longrightarrow> entries M ! i ! i
                 = (if ssqdm (values_of (snd (columns sub ! i))) = 0 then None else Some 1)"
    by (simp add: M entries_corr pearson_self values_of_def)
  have same: "\<forall>i j. i < ?k \<and> j < ?k \<and> snd (columns sub ! i) = snd (columns sub ! j) \<longrightarrow>
               entries M ! i ! j = entries M ! i ! i"
    by (simp add: M entries_corr)
  have named: "labels M = metrics \<and> ?k = length metrics
             \<and> (\<forall>i j. i < length metrics \<and> j < length metrics
                     \<and> get_column df (metrics ! i) = get_column df (metrics ! j) \<longrightarrow>
                   entries M ! i ! j = entries M ! i ! i)"
    if d: "distinct (column_names df)"
  proof -
    have dw: "distinct (column_names w)" using d column_names_window[OF w] by simp
    note sc = select_columns_distinct[OF dw s]
    have k: "?k = length metrics" by (rule conjunct1[OF sc])
    have cols: "\<forall>i<length metrics. \<exists>vs. get_column w (metrics ! i) = Inr vs
                                  \<and> columns sub ! i = (metrics ! i, vs)"
      by (rule conjunct2[OF sc])
    have "entries M ! i ! j = entries M ! i ! i"
      if i: "i < length metrics" and j: "j < length metrics"
        and e: "get_column df (metrics ! i) = get_column df (metrics ! j)" for i j
    proof -
      from cols i obtain xs where
        x: "get_column w (metrics ! i) = Inr xs" "columns sub ! i = (metrics ! i, xs)" by blast
      from cols j obtain ys where
        y: "get_column w (metrics ! j) = Inr ys" "columns sub ! j = (metrics ! j, ys)" by blast
      from get_column_window[OF w x(1) y(1) e] have "xs = ys" .
      with x(2) y(2) have eq: "snd (columns sub ! i) = snd (columns sub ! j)" by simp
      from i j k have "i < ?k" "j < ?k" by simp_all
      with eq same[rule_format, of i j] show ?thesis by simp
    qed
    then have all: "\<forall>i j. i < length metrics \<and> j < length metrics
                     \<and> get_column df (metrics ! i) = get_column df (metrics ! j) \<longrightarrow>
                   entries M ! i ! j = entries M ! i ! i"
      by blast
    have lab: "labels M = metrics" unfolding M by (rule labels_corr_select[OF dw s])
    from lab k all show ?thesis by (intro conjI)
  qed
  show ?thesis
  proof (rule exI[of _ w], rule exI[of _ sub], intro conjI)
    show "distinct (column_names df) \<longrightarrow>
               labels M = metrics \<and> length (columns sub) = length metrics
             \<and> (\<forall>i j. i < length metrics \<and> j < length metrics
                     \<and> get_column df (metrics ! i) = get_column df (metrics ! j) \<longrightarrow>
                   entries M ! i ! j = entries M ! i ! i)"
      by (rule impI) (rule named)
  qed (fact w s M l1 l2 sym diag same)+
qed

text \<open>
  The theorem at a table with two identical columns A and B and a constant column C:
  the correlation of A and B is 1 in both orders, the diagonal entry of A is 1, that of C
  is missing.
\<close>

theorem correlation_matrix_symmetric_unit_diagonal_witness:
  "calculate_correlation
     \<lparr>index_name = None, index = range_index 3,
      columns = [(''A'', [Some 1, Some 2, Some 4]), (''B'', [Some 1, Some 2, Some 4]),
                 (''C'', [Some 3, Some 3, Some 3])]\<rparr> [''A'', ''B'', ''C''] None
     = Inr (corr \<lparr>index_name = None, index = range_index 3,
                  columns = [(''A'', [Some 1, Some 2, Some 4]), (''B'', [Some 1, Some 2, Some 4]),
                             (''C'', [Some 3, Some 3, Some 3])]\<rparr>)
   \<and> entries (corr \<lparr>index_name = None, index = range_index 3,
                  columns = [(''A'', [Some 1, Some 2, Some 4]), (''B'', [Some 1, Some 2, Some 4]),
                             (''C'', [Some 3, Some 3, Some 3])]\<rparr>) ! 0 ! 1 = Some 1
   \<and> entries (corr \<lparr>index_name = None, index = range_index 3,
                  columns = [(''A'', [Some 1, Some 2, Some 4]), (''B'', [Some 1, Some 2, Some 4]),
                             (''C'', [Some 3, Some 3, Some 3])]\<rparr>) ! 1 ! 0 = Some 1
   \<and> entries (corr \<lparr>index_name = None, index = range_index 3,
                  columns = [(''A'', [Some 1, Some 2, Some 4]), (''B'', [Some 1, Some 2, Some 4]),
                             (''C'', [Some 3, Some 3, Some 3])]\<rparr>) ! 0 ! 0 = Some 1
   \<and> entries (corr \<lparr>index_name = None, index = range_index 3,
                  columns = [(''A'', [Some 1, Some 2, Some 4]), (''B'', [Some 1, Some 2, Some 4]),
                             (''C'', [Some 3, Some 3, Some 3])]\<rparr>) ! 2 ! 2 = None"
proof -
  let ?df = "\<lparr>index_name = None, index = range_index 3,
      columns = [(''A'', [Some 1, Some 2, Some 4]), (''B'', [Some 1, Some 2, Some 4]),
                 (''C'', [Some 3, Some 3, Some 3])]\<rparr>"
  let ?M = "corr ?df"
  have sel: "select_columns ?df [''A'', ''B'', ''C''] = Inr ?df"
    by (simp add: select_columns_def column_names_def)
  have h: "calculate_correlation ?df [''A'', ''B'', ''C''] None = Inr ?M"
    by (simp add: calculate_correlation_def window_of_def bind_def sel)
  from correlation_matrix_symmetric_unit_diagonal[OF h] obtain windowed sub where
    w: "window_of ?df None = Inr windowed" and
    s: "select_columns windowed [''A'', ''B'', ''C''] = Inr sub" and
    sym: "\<forall>i j. i < length (columns sub) \<and> j < length (columns sub) \<longrightarrow>
               entries ?M ! i ! j = entries ?M ! j ! i" and
    diag: "\<forall>i. i < length (columns sub) \<longrightarrow>
               entries ?M ! i ! i
                 = (if ssqdm (values_of (snd (columns sub ! i))) = 0 then None else Some 1)" and
    same: "\<forall>i j. i < length (columns sub) \<and> j < length (columns sub)
                 \<and> snd (columns sub ! i) = snd (columns sub ! j) \<longrightarrow>
               entries ?M ! i ! j = entries ?M ! i ! i"
    by blast
  from w have "windowed = ?df" by (simp add: window_of_def)
  with s sel have sub: "sub = ?df" by simp
  have vA: "ssqdm (values_of [Some 1, Some 2, Some 4]) \<noteq> 0"
    by (simp add: values_of_def complete_pairs_def ssqdm_def mean_def)
  have vC: "ssqdm (values_of [Some 3, Some 3, Some 3]) = 0"
    by (simp add: values_of_def complete_pairs_def ssqdm_def mean_def)
  from diag[rule_format, of 0] vA have d0: "entries ?M ! 0 ! 0 = Some 1" by (simp add: sub)
  from diag[rule_format, of 2] vC have d2: "entries ?M ! 2 ! 2 = None" by (simp add: sub)
  from same[rule_format, of 0 1] d0 have e01: "entries ?M ! 0 ! 1 = Some 1" by (simp add: sub)
  from sym[rule_format, of 1 0] e01 have e10: "entries ?M ! 1 ! 0 = Some 1" by (simp add: sub)
  show ?thesis
    by (intro conjI) (fact h e01 e10 d0 d2)+
qed

section \<open>Properties of highlight_key_correlations_all_matrices\<close>

text \<open>
  Claim C7 on the code. A matrix of one row and one column has nothing but its diagonal,
  so after masking every entry is missing and \<open>idxmax\<close> is asked for the label of the
  greatest of no values. The code has no guard for this. On the pandas releases that
  raise there (3.0 and later) the function ends in ValueError; on the earlier ones it
  prints a missing pair and a missing value for the group.
\<close>

theorem highlight_single_metric_matrix:
  "highlight_key_correlations_all_matrices True
     [(''Environmental'', \<lparr>labels = [''MtCO2e_AUS''], entries = [[Some 1]]\<rparr>)] ''Australia''
   = Inl ValueError
   \<and> highlight_key_correlations_all_matrices False
     [(''Environmental'', \<lparr>labels = [''MtCO2e_AUS''], entries = [[Some 1]]\<rparr>)] ''Australia''
   = Inr [Text (newline # ''=== Highlighting Key Correlations for Australia ===''),
          Text (newline # ''Environmental Correlation Matrix:''),
          Strongest None None, Weakest None None]"
  by code_simp

section \<open>Properties of predefined_correlation_analysis\<close>

text \<open>The two membership tests, as look-ups among the literals.\<close>

lemma find_key_None:
  "selected_key \<notin> codes ` {''1'', ''2'', ''3'', ''4'', ''5'', ''6'', ''7''} \<Longrightarrow>
     find (\<lambda>p. codes (fst p) = selected_key) predefined_combinations = None"
  by (simp add: predefined_combinations_def find_None_iff) blast

lemma find_tag_None:
  "typed_country \<notin> {codes ''AUS'', codes ''CHI''} \<Longrightarrow>
     find (\<lambda>tag. codes tag = typed_country) [''AUS'', ''CHI''] = None"
  by auto

lemma find_key_Some:
  assumes "selected_key \<in> codes ` {''1'', ''2'', ''3'', ''4'', ''5'', ''6'', ''7''}"
  obtains key description metric1 metric2 where
    "find (\<lambda>p. codes (fst p) = selected_key) predefined_combinations
       = Some (key, description, metric1, metric2)"
proof -
  have "\<exists>p\<in>set predefined_combinations. codes (fst p) = selected_key"
    using assms by (simp add: predefined_combinations_def) blast
  then have "find (\<lambda>p. codes (fst p) = selected_key) predefined_combinations \<noteq> None"
    unfolding find_None_iff by blast
  then obtain v where "find (\<lambda>p. codes (fst p) = selected_key) predefined_combinations = Some v"
    by blast
  then show ?thesis using that by (cases v) auto
qed

text \<open>The two early returns.\<close>

lemma abort_key:
  assumes "find (\<lambda>p. codes (fst p) = strip_text key_line) predefined_combinations = None"
  shows "predefined_correlation_analysis unicode_upper merged_data (key_line # rest)
        = Inr \<lparr>printed = menu @ [Prompt (newline # ''Choose a combination number (e.g., 1): ''),
                                 Text ''Invalid selection!''],
               computed = None, plotted = False, merged = merged_data\<rparr>"
  unfolding predefined_correlation_analysis_def input_line_def bind_def Let_def
  by (simp add: assms)

lemma abort_tag:
  assumes m: "find (\<lambda>p. codes (fst p) = strip_text key_line) predefined_combinations
          = Some (key, description, metric1, metric2)"
    and t: "find (\<lambda>tag. codes tag = upper unicode_upper (strip_text country_line)) [''AUS'', ''CHI''] = None"
  shows "predefined_correlation_analysis unicode_upper merged_data (key_line # country_line # rest)
           = Inr \<lparr>printed = menu @ [Prompt (newline # ''Choose a combination number (e.g., 1): ''),
                                    Text (newline # ''Selected combination: '' @ description),
                                    Prompt ''Select a country suffix (AUS or CHI): '',
                                    Text ''Invalid country suffix!''],
                  computed = None, plotted = False, merged = merged_data\<rparr>"
  unfolding predefined_correlation_analysis_def input_line_def bind_def Let_def
  by (simp only: list.case sum.case prod.case m t option.case append.simps append_assoc)

text \<open>
  Claim C9, as the code has it. The key the function looks up is what the user typed
  without the whitespace at its ends, and the country tag it checks is what the user
  typed without the whitespace at its ends and in upper case. When that key is none of
  the predefined keys 1 to 7, the function prints \<open>Invalid selection!\<close> and returns: no
  error, no correlation computed, no plot, the merged table as it was. When the key is
  one of them and that tag is neither AUS nor CHI, it prints \<open>Invalid country suffix!\<close>
  and returns in the same way. (The claim says this of the key and the tag as supplied;
  the counterexample below shows a supplied key and tag that are not among the
  recognised ones and are accepted.)
\<close>

theorem invalid_selection_aborts:
  "(strip_text key_line \<notin> codes ` {''1'', ''2'', ''3'', ''4'', ''5'', ''6'', ''7''} \<longrightarrow>
      predefined_correlation_analysis unicode_upper merged_data (key_line # rest)
        = Inr \<lparr>printed = menu @ [Prompt (newline # ''Choose a combination number (e.g., 1): ''),
                                 Text ''Invalid selection!''],
               computed = None, plotted = False, merged = merged_data\<rparr>)
   \<and> (strip_text key_line \<in> codes ` {''1'', ''2'', ''3'', ''4'', ''5'', ''6'', ''7''}
        \<and> upper unicode_upper (strip_text country_line) \<notin> {codes ''AUS'', codes ''CHI''} \<longrightarrow>
      (\<exists>description.
         predefined_correlation_analysis unicode_upper merged_data (key_line # country_line # rest)
           = Inr \<lparr>printed = menu @ [Prompt (newline # ''Choose a combination number (e.g., 1): ''),
                                    Text (newline # ''Selected combination: '' @ description),
                                    Prompt ''Select a country suffix (AUS or CHI): '',
                                    Text ''Invalid country suffix!''],
                  computed = None, plotted = False, merged = merged_data\<rparr>))"
proof (intro conjI impI)
  assume "strip_text key_line \<notin> codes ` {''1'', ''2'', ''3'', ''4'', ''5'', ''6'', ''7''}"
  from abort_key[OF find_key_None[OF this]]
  show "predefined_correlation_analysis unicode_upper merged_data (key_line # rest)
        = Inr \<lparr>printed = menu @ [Prompt (newline # ''Choose a combination number (e.g., 1): ''),
                                 Text ''Invalid selection!''],
               computed = None, plotted = False, merged = merged_data\<rparr>" .
next
  assume a: "strip_text key_line \<in> codes ` {''1'', ''2'', ''3'', ''4'', ''5'', ''6'', ''7''}
        \<and> upper unicode_upper (strip_text country_line) \<notin> {codes ''AUS'', codes ''CHI''}"
  from conjunct1[OF a] obtain key description metric1 metric2 where
    m: "find (\<lambda>p. codes (fst p) = strip_text key_line) predefined_combinations
          = Some (key, description, metric1, metric2)"
    by (rule find_key_Some)
  note t = find_tag_None[OF conjunct2[OF a]]
  show "\<exists>description.
         predefined_correlation_analysis unicode_upper merged_data (key_line # country_line # rest)
           = Inr \<lparr>printed = menu @ [Prompt (newline # ''Choose a combination number (e.g., 1): ''),
                                    Text (newline # ''Selected combination: '' @ description),
                                    Prompt ''Select a country suffix (AUS or CHI): '',
                                    Text ''Invalid country suffix!''],
                  computed = None, plotted = False, merged = merged_data\<rparr>"
    by (rule exI[of _ description]) (rule abort_tag[OF m t])
qed

text \<open>
  The theorem at the key \<open>8\<close> followed by a blank, and at the key \<open>1\<close> with the country
  \<open>fra\<close> after a blank.
\<close>

theorem invalid_selection_aborts_witness:
  "strip_text (codes ''8 '') \<notin> codes ` {''1'', ''2'', ''3'', ''4'', ''5'', ''6'', ''7''}
   \<and> predefined_correlation_analysis (\<lambda>c. [c])
        \<lparr>index_name = None, index = [0], columns = [(''Relative Year'', [Some 0])]\<rparr> [codes ''8 '']
       = Inr \<lparr>printed = menu @ [Prompt (newline # ''Choose a combination number (e.g., 1): ''),
                                Text ''Invalid selection!''],
              computed = None, plotted = False,
              merged = \<lparr>index_name = None, index = [0], columns = [(''Relative Year'', [Some 0])]\<rparr>\<rparr>
   \<and> strip_text (codes ''1'') \<in> codes ` {''1'', ''2'', ''3'', ''4'', ''5'', ''6'', ''7''}
   \<and> upper (\<lambda>c. [c]) (strip_text (codes '' fra'')) \<notin> {codes ''AUS'', codes ''CHI''}
   \<and> (\<exists>description.
         predefined_correlation_analysis (\<lambda>c. [c])
           \<lparr>index_name = None, index = [0], columns = [(''Relative Year'', [Some 0])]\<rparr>
           [codes ''1'', codes '' fra'']
           = Inr \<lparr>printed = menu @ [Prompt (newline # ''Choose a combination number (e.g., 1): ''),
                                    Text (newline # ''Selected combination: '' @ description),
                                    Prompt ''Select a country suffix (AUS or CHI): '',
                                    Text ''Invalid country suffix!''],
                  computed = None, plotted = False,
                  merged = \<lparr>index_name = None, index = [0], columns = [(''Relative Year'', [Some 0])]\<rparr>\<rparr>)"
proof -
  let ?md = "\<lparr>index_name = None, index = [0], columns = [(''Relative Year'', [Some 0])]\<rparr>"
  have h1: "strip_text (codes ''8 '') \<notin> codes ` {''1'', ''2'', ''3'', ''4'', ''5'', ''6'', ''7''}"
    by (simp add: strip_text_def codes_def is_space_code_def)
  have h2: "strip_text (codes ''1'') \<in> codes ` {''1'', ''2'', ''3'', ''4'', ''5'', ''6'', ''7''}"
    by (simp add: strip_text_def codes_def is_space_code_def)
  have h3: "upper (\<lambda>c. [c]) (strip_text (codes '' fra'')) \<notin> {codes ''AUS'', codes ''CHI''}"
    by (simp add: strip_text_def codes_def is_space_code_def upper_def upper_code_def)
  note t1 = invalid_selection_aborts[of "codes ''8 ''" "\<lambda>c. [c]" ?md "[]" "[]"]
  note t2 = invalid_selection_aborts[of "codes ''1''" "\<lambda>c. [c]" ?md "[]" "codes '' fra''"]
  from mp[OF conjunct1[OF t1] h1]
  have a: "predefined_correlation_analysis (\<lambda>c. [c]) ?md [codes ''8 '']
       = Inr \<lparr>printed = menu @ [Prompt (newline # ''Choose a combination number (e.g., 1): ''),
                                Text ''Invalid selection!''],
              computed = None, plotted = False, merged = ?md\<rparr>" .
  from mp[OF conjunct2[OF t2] conjI[OF h2 h3]]
  have b: "\<exists>description.
         predefined_correlation_analysis (\<lambda>c. [c]) ?md [codes ''1'', codes '' fra'']
           = Inr \<lparr>printed = menu @ [Prompt (newline # ''Choose a combination number (e.g., 1): ''),
                                    Text (newline # ''Selected combination: '' @ description),
                                    Prompt ''Select a country suffix (AUS or CHI): '',
                                    Text ''Invalid country suffix!''],
                  computed = None, plotted = False, merged = ?md\<rparr>" .
  show ?thesis by (intro conjI) (fact h1 a h2 h3 b)+
qed

text \<open>
  Claim C9 as stated fails. The user types the key \<open>1\<close> between two blanks and the tag
  \<open>aus\<close>: the typed key is not one of the predefined keys and the typed tag is neither
  AUS nor CHI, yet nothing is reported as invalid; the function goes on, computes the
  correlation of \<open>GDP_per_capita_AUS\<close> and \<open>FDI_AUS\<close> (1/2 on this table) and draws the
  plot. The run is the same when the key \<open>1\<close> is followed by a no-break space (U+00A0)
  and the tag is \<open>au\<close> with a long s (U+017F).
\<close>

theorem typed_key_and_tag_are_normalised_counterexample:
  "codes '' 1 '' \<notin> codes ` {''1'', ''2'', ''3'', ''4'', ''5'', ''6'', ''7''}
   \<and> codes ''aus'' \<notin> {codes ''AUS'', codes ''CHI''}
   \<and> predefined_correlation_analysis (\<lambda>c. [c])
        \<lparr>index_name = None, index = [0, 1, 2],
         columns = [(''Relative Year'', [Some (- 1), Some 0, Some 1]),
                    (''GDP_per_capita_AUS'', [Some 1, Some 2, Some 3]),
                    (''FDI_AUS'', [Some 1, Some 3, Some 2])]\<rparr>
        [codes '' 1 '', codes ''aus'']
      = Inr \<lparr>printed = menu @ [Prompt (newline # ''Choose a combination number (e.g., 1): ''),
                               Text (newline # ''Selected combination: Do GDP and FDI correlated?''),
                               Prompt ''Select a country suffix (AUS or CHI): '',
                               Text (newline # ''Selected country suffix: AUS''),
                               Text ''Checking columns: GDP_per_capita_AUS and FDI_AUS'',
                               Correlation ''GDP_per_capita'' ''FDI'' ''AUS'' (Some (1 / 2))],
              computed = Some (Some (1 / 2)), plotted = True,
              merged = \<lparr>index_name = None, index = [0, 1, 2],
                         columns = [(''Relative Year'', [Some (- 1), Some 0, Some 1]),
                                    (''GDP_per_capita_AUS'', [Some 1, Some 2, Some 3]),
                                    (''FDI_AUS'', [Some 1, Some 3, Some 2])]\<rparr>\<rparr>
   \<and> predefined_correlation_analysis (\<lambda>c. [c])
        \<lparr>index_name = None, index = [0, 1, 2],
         columns = [(''Relative Year'', [Some (- 1), Some 0, Some 1]),
                    (''GDP_per_capita_AUS'', [Some 1, Some 2, Some 3]),
                    (''FDI_AUS'', [Some 1, Some 3, Some 2])]\<rparr>
        [[49, 160], [97, 117, 383]]
      = predefined_correlation_analysis (\<lambda>c. [c])
        \<lparr>index_name = None, index = [0, 1, 2],
         columns = [(''Relative Year'', [Some (- 1), Some 0, Some 1]),
                    (''GDP_per_capita_AUS'', [Some 1, Some 2, Some 3]),
                    (''FDI_AUS'', [Some 1, Some 3, Some 2])]\<rparr>
        [codes '' 1 '', codes ''aus'']"
proof (intro conjI)
  show "codes '' 1 '' \<notin> codes ` {''1'', ''2'', ''3'', ''4'', ''5'', ''6'', ''7''}"
    by (simp add: codes_def)
  show "codes ''aus'' \<notin> {codes ''AUS'', codes ''CHI''}"
    by (simp add: codes_def)
  show "predefined_correlation_analysis (\<lambda>c. [c])
        \<lparr>index_name = None, index = [0, 1, 2],
         columns = [(''Relative Year'', [Some (- 1), Some 0, Some 1]),
                    (''GDP_per_capita_AUS'', [Some 1, Some 2, Some 3]),
                    (''FDI_AUS'', [Some 1, Some 3, Some 2])]\<rparr>
        [codes '' 1 '', codes ''aus'']
      = Inr \<lparr>printed = menu @ [Prompt (newline # ''Choose a combination number (e.g., 1): ''),
                               Text (newline # ''Selected combination: Do GDP and FDI correlated?''),
                               Prompt ''Select a country suffix (AUS or CHI): '',
                               Text (newline # ''Selected country suffix: AUS''),
                               Text ''Checking columns: GDP_per_capita_AUS and FDI_AUS'',
                               Correlation ''GDP_per_capita'' ''FDI'' ''AUS'' (Some (1 / 2))],
              computed = Some (Some (1 / 2)), plotted = True,
              merged = \<lparr>index_name = None, index = [0, 1, 2],
                         columns = [(''Relative Year'', [Some (- 1), Some 0, Some 1]),
                                    (''GDP_per_capita_AUS'', [Some 1, Some 2, Some 3]),
                                    (''FDI_AUS'', [Some 1, Some 3, Some 2])]\<rparr>\<rparr>"
    by (simp add: predefined_correlation_analysis_def bind_def input_line_def strip_text_def codes_def
        is_space_code_def upper_def upper_code_def predefined_combinations_def column_names_def
        select_columns_def get_column_def columns_named_def corr_def values_of_def pearson_def
        complete_pairs_def covxy_def ssqdm_def mean_def Let_def)
  show "predefined_correlation_analysis (\<lambda>c. [c])
        \<lparr>index_name = None, index = [0, 1, 2],
         columns = [(''Relative Year'', [Some (- 1), Some 0, Some 1]),
                    (''GDP_per_capita_AUS'', [Some 1, Some 2, Some 3]),
                    (''FDI_AUS'', [Some 1, Some 3, Some 2])]\<rparr>
        [[49, 160], [97, 117, 383]]
      = predefined_correlation_analysis (\<lambda>c. [c])
        \<lparr>index_name = None, index = [0, 1, 2],
         columns = [(''Relative Year'', [Some (- 1), Some 0, Some 1]),
                    (''GDP_per_capita_AUS'', [Some 1, Some 2, Some 3]),
                    (''FDI_AUS'', [Some 1, Some 3, Some 2])]\<rparr>
        [codes '' 1 '', codes ''aus'']"
    by (simp add: predefined_correlation_analysis_def bind_def input_line_def strip_text_def codes_def
        is_space_code_def upper_def upper_code_def predefined_combinations_def Let_def)
qed

end
